theory Spec2Isabelle
  imports Complex_Main "HOL-Library.Sublist" "HOL-Library.Multiset"
begin

section \<open>Values handed to the assertions\<close>

text \<open>
  The assertions of package \<open>ensure\<close> take values of Go's empty interface. The fragment
  of Go values modelled here covers the values the tests of the package use:
  the nil interface, booleans, ints, bytes, float64s, strings, errors made by
  \<open>errors.New\<close>, nil pointers of a named pointer type, non-nil function values,
  non-nil slices, arrays and structs. A slice, an array and a struct carry the name of
  their type; a struct holds the values of its fields in the order of their
  declaration, and the structs and arrays of the fragment are of types that do not
  implement \<open>error\<close>.

  A \<open>GSlice ty p xs\<close> is a slice of type \<open>ty\<close> whose first element lies at the address \<open>p\<close>
  and whose elements are \<open>xs\<close>. Two slice values with the same address and the same
  elements are the same slice, handed over twice; two slices allocated separately have
  different addresses. At any moment of a run two slices of the same address and
  length hold the same elements, since they are the same memory.

  A \<open>GNilPtr ty e\<close> is an interface value that holds a nil pointer of the pointer type
  \<open>ty\<close> (not a pointer to an array); \<open>e\<close> is \<open>Some txt\<close> when that pointer type
  implements \<open>error\<close>, with \<open>txt\<close> the text \<open>fmt\<close> prints for the nil pointer, and \<open>None\<close>
  when it does not. The second component is a property of the type, so it is part of
  the type's identity. A \<open>GError e\<close> is an error whose \<open>Error\<close> method returns \<open>e\<close> and
  that has no \<open>Format\<close> method of its own. A \<open>GFunc f\<close> is a function value that is not
  nil.
\<close>

datatype float64 = NaN | Num real

datatype gval =
    GNil
  | GBool bool
  | GInt int
  | GUint8 char
  | GFloat64 float64
  | GString string
  | GError string
  | GNilPtr string "string option"
  | GFunc string
  | GSlice string nat "gval list"
  | GArray string "gval list"
  | GStruct string "gval list"

text \<open>
  \<open>reflect.DeepEqual\<close> of the Go standard library, after its documentation: values of
  distinct types are never deeply equal; a nil interface is deeply equal to a nil
  interface only; numbers, booleans and strings are compared with \<open>==\<close> (so a NaN is not
  equal to itself); pointers are deeply equal when they are equal (two nil pointers of
  one type are) or point to deeply equal values (the two \<open>errors.New\<close> values with the
  same text); function values are deeply equal only when both are nil, so two non-nil
  function values never are; arrays of one type are deeply equal when their elements
  are, and structs of one type when their fields are; slices of one type are deeply
  equal when they have the same length and either share their first element in memory
  or have deeply equal elements. A slice is therefore deeply equal to itself whatever it
  holds, while an array or a struct is compared by what it holds. The test for the
  shared memory reads \<open>pa = pb \<and> xs = ys\<close> here: the same address and length, and with
  them the same elements.
\<close>

fun float64_eq :: "float64 \<Rightarrow> float64 \<Rightarrow> bool" where
  "float64_eq (Num a) (Num b) = (a = b)"
| "float64_eq _ _ = False"

fun reflect_DeepEqual :: "gval \<Rightarrow> gval \<Rightarrow> bool"
  and deepValueEqual_elems :: "gval list \<Rightarrow> gval list \<Rightarrow> bool" where
  "reflect_DeepEqual GNil y = (case y of GNil \<Rightarrow> True | _ \<Rightarrow> False)"
| "reflect_DeepEqual (GBool a) y = (case y of GBool b \<Rightarrow> a = b | _ \<Rightarrow> False)"
| "reflect_DeepEqual (GInt a) y = (case y of GInt b \<Rightarrow> a = b | _ \<Rightarrow> False)"
| "reflect_DeepEqual (GUint8 a) y = (case y of GUint8 b \<Rightarrow> a = b | _ \<Rightarrow> False)"
| "reflect_DeepEqual (GFloat64 a) y =
     (case y of GFloat64 b \<Rightarrow> float64_eq a b | _ \<Rightarrow> False)"
| "reflect_DeepEqual (GString a) y = (case y of GString b \<Rightarrow> a = b | _ \<Rightarrow> False)"
| "reflect_DeepEqual (GError a) y = (case y of GError b \<Rightarrow> a = b | _ \<Rightarrow> False)"
| "reflect_DeepEqual (GNilPtr ta ea) y =
     (case y of GNilPtr tb eb \<Rightarrow> ta = tb \<and> ea = eb | _ \<Rightarrow> False)"
| "reflect_DeepEqual (GFunc a) y = False"
| "reflect_DeepEqual (GSlice ta pa xs) y =
     (case y of
        GSlice tb pb ys \<Rightarrow> ta = tb \<and> ((pa = pb \<and> xs = ys) \<or> deepValueEqual_elems xs ys)
      | _ \<Rightarrow> False)"
| "reflect_DeepEqual (GArray ta xs) y =
     (case y of GArray tb ys \<Rightarrow> ta = tb \<and> deepValueEqual_elems xs ys | _ \<Rightarrow> False)"
| "reflect_DeepEqual (GStruct ta xs) y =
     (case y of GStruct tb ys \<Rightarrow> ta = tb \<and> deepValueEqual_elems xs ys | _ \<Rightarrow> False)"
| "deepValueEqual_elems [] ys = (ys = [])"
| "deepValueEqual_elems (x # xs) ys =
     (case ys of
        [] \<Rightarrow> False
      | y # ys' \<Rightarrow> reflect_DeepEqual x y \<and> deepValueEqual_elems xs ys')"

text \<open>
  The values that \<open>reflect.DeepEqual\<close> compares by what they hold and that hold no NaN
  and no function value there: a value that is not itself a NaN or a function value,
  and, for an array or a struct, whose elements or fields are such values in turn.
  What a slice holds does not count: a slice is compared with itself by its address.
\<close>

fun comparable :: "gval \<Rightarrow> bool" and comparable_elems :: "gval list \<Rightarrow> bool" where
  "comparable (GFloat64 f) = (f \<noteq> NaN)"
| "comparable (GFunc f) = False"
| "comparable (GArray ty xs) = comparable_elems xs"
| "comparable (GStruct ty xs) = comparable_elems xs"
| "comparable _ = True"
| "comparable_elems [] = True"
| "comparable_elems (x # xs) = (comparable x \<and> comparable_elems xs)"

text \<open>
  The type assertion \<open>v.(error)\<close> together with what \<open>fmt\<close> prints for the error under
  \<open>%s\<close> and \<open>%+v\<close>: the text of its \<open>Error\<close> method.
\<close>

fun error_text :: "gval \<Rightarrow> string option" where
  "error_text (GError e) = Some e"
| "error_text (GNilPtr ty e) = e"
| "error_text _ = None"

section \<open>Standard library functions the package calls\<close>

text \<open>
  \<open>strings.Contains\<close>, \<open>strings.HasPrefix\<close> and \<open>strings.Repeat\<close> on byte strings.
\<close>

fun strings_Contains :: "string \<Rightarrow> string \<Rightarrow> bool" where
  "strings_Contains [] substr = (substr = [])"
| "strings_Contains (c # s) substr = (prefix substr (c # s) \<or> strings_Contains s substr)"

definition strings_HasPrefix :: "string \<Rightarrow> string \<Rightarrow> bool" where
  "strings_HasPrefix s pre = prefix pre s"

definition strings_Repeat :: "string \<Rightarrow> nat \<Rightarrow> string" where
  "strings_Repeat s n = concat (replicate n s)"

text \<open>
  \<open>strings.TrimSpace\<close> removes the leading and the trailing white space, as Unicode
  defines it, of a UTF-8 string. \<open>unicode_spaces\<close> lists the UTF-8 encodings of the
  code points \<open>unicode.IsSpace\<close> accepts: tab, line feed, vertical tab, form feed,
  carriage return, space, U+0085, U+00A0, U+1680, U+2000 to U+200A, U+2028, U+2029,
  U+202F, U+205F and U+3000.
\<close>

definition unicode_spaces :: "string list" where
  "unicode_spaces =
     [[CHR 0x09], [CHR 0x0A], [CHR 0x0B], [CHR 0x0C], [CHR 0x0D], [CHR 0x20],
      [CHR 0xC2, CHR 0x85], [CHR 0xC2, CHR 0xA0], [CHR 0xE1, CHR 0x9A, CHR 0x80]]
     @ map (\<lambda>b. [CHR 0xE2, CHR 0x80, b])
         [CHR 0x80, CHR 0x81, CHR 0x82, CHR 0x83, CHR 0x84, CHR 0x85, CHR 0x86, CHR 0x87,
          CHR 0x88, CHR 0x89, CHR 0x8A, CHR 0xA8, CHR 0xA9, CHR 0xAF]
     @ [[CHR 0xE2, CHR 0x81, CHR 0x9F], [CHR 0xE3, CHR 0x80, CHR 0x80]]"

function TrimLeft :: "string list \<Rightarrow> string \<Rightarrow> string" where
  "TrimLeft seqs s =
     (case find (\<lambda>q. q \<noteq> [] \<and> prefix q s) seqs of
        None \<Rightarrow> s
      | Some q \<Rightarrow> TrimLeft seqs (drop (length q) s))"
  by pat_completeness auto
termination
  by (relation "measure (\<lambda>(seqs, s). length s)")
     (auto simp: find_Some_iff prefix_def)

declare TrimLeft.simps [simp del]

definition strings_TrimSpace :: "string \<Rightarrow> string" where
  "strings_TrimSpace s =
     rev (TrimLeft (map rev unicode_spaces) (rev (TrimLeft unicode_spaces s)))"

text \<open>
  \<open>strconv.Itoa\<close>, which is what \<open>fmt\<close> prints for an int under \<open>%d\<close>.
\<close>

fun digits :: "nat \<Rightarrow> string" where
  "digits n =
     (if n < 10 then [''0123456789'' ! n]
      else digits (n div 10) @ [''0123456789'' ! (n mod 10)])"

declare digits.simps [simp del]

definition strconv_Itoa :: "int \<Rightarrow> string" where
  "strconv_Itoa i = (if i < 0 then CHR ''-'' # digits (nat (- i)) else digits (nat i))"

text \<open>
  \<open>filepath.Base\<close> on a system whose path separator is the slash: the last element of
  the path, trailing slashes removed first; \<open>.\<close> for the empty path and \<open>/\<close> for a path
  of slashes only.
\<close>

definition filepath_Base :: "string \<Rightarrow> string" where
  "filepath_Base path =
     (if path = [] then ''.''
      else
        let stripped = rev (dropWhile (\<lambda>c. c = CHR ''/'') (rev path));
            element = rev (takeWhile (\<lambda>c. c \<noteq> CHR ''/'') (rev stripped))
        in if element = [] then ''/'' else element)"

text \<open>
  \<open>fmt.Sprintf\<close> for the verbs the package's format strings use, \<open>%s\<close>, \<open>%d\<close> and
  \<open>%+v\<close>. Each operand is given as the text \<open>fmt\<close> prints for it under its verb: a string
  as itself, a \<open>*regexp.Regexp\<close> as its source expression (its \<open>String\<close> method), an
  error as the text of its \<open>Error\<close> method, an int in decimal. Every call of the
  package passes as many operands as its format string has verbs, and a missing
  operand is printed as \<open>fmt\<close> prints it.
\<close>

fun fmt_Sprintf :: "string \<Rightarrow> string list \<Rightarrow> string" where
  "fmt_Sprintf [] args = []"
| "fmt_Sprintf [c] args = [c]"
| "fmt_Sprintf (c # d # cs) args =
     (if c = CHR ''%'' \<and> (d = CHR ''s'' \<or> d = CHR ''d'') then
        (case args of
           [] \<Rightarrow> ''%!'' @ [d] @ ''(MISSING)'' @ fmt_Sprintf cs []
         | a # as \<Rightarrow> a @ fmt_Sprintf cs as)
      else if c = CHR ''%'' \<and> d = CHR ''+'' then
        (case cs of
           [] \<Rightarrow> c # fmt_Sprintf (d # cs) args
         | e # rest \<Rightarrow>
             (if e = CHR ''v'' then
                (case args of
                   [] \<Rightarrow> ''%!v(MISSING)'' @ fmt_Sprintf rest []
                 | a # as \<Rightarrow> a @ fmt_Sprintf rest as)
              else c # fmt_Sprintf (d # cs) args))
      else c # fmt_Sprintf (d # cs) args)"

text \<open>
  A compiled regular expression is its source expression and the set of strings it
  matches, as \<open>MatchString\<close> decides it.
\<close>

record regexp =
  expr :: string
  MatchString :: "string \<Rightarrow> bool"

section \<open>The reporting sink\<close>

text \<open>
  A \<open>Fataler\<close> is anything with a \<open>Fatal\<close> method. Its state is the list of messages
  \<open>Fatal\<close> has received, oldest first, and the number of \<open>Helper\<close> calls it has received.
  \<open>returns\<close> tells whether its \<open>Fatal\<close> hands control back to the caller, as the
  \<open>capture\<close> sink of the tests does, or ends the goroutine, as \<open>testing.T\<close> does;
  \<open>has_Helper\<close> tells whether it has a \<open>Helper\<close> method.

  A call ends in one of three ways: it returns, the goroutine is ended by the sink, or
  it panics.
\<close>

record fataler =
  returns :: bool
  has_Helper :: bool
  fatals :: "string list"
  helpers :: nat

datatype panic =
    PanicValue string
  | SliceBoundsOutOfRange
  | IndexOutOfRange
  | ReflectValueError

datatype outcome = Returned | Goexit | Panic panic

definition Fatal :: "fataler \<Rightarrow> string \<Rightarrow> outcome \<times> fataler" where
  "Fatal t msg =
     (if returns t then Returned else Goexit, t\<lparr>fatals := fatals t @ [msg]\<rparr>)"

definition Helper :: "fataler \<Rightarrow> fataler" where
  "Helper t = t\<lparr>helpers := Suc (helpers t)\<rparr>"

text \<open>
  \<open>helper\<close> returns the sink itself when it has a \<open>Helper\<close> method, and wraps it in a
  \<open>helperWrapper\<close>, whose \<open>Helper\<close> method is empty, when it has none. \<open>helper_Helper\<close> is
  the statement \<open>helper(t).Helper()\<close> that opens every assertion.
\<close>

datatype fatalerHelper = fatalerHelper fataler | helperWrapper fataler

definition helper :: "fataler \<Rightarrow> fatalerHelper" where
  "helper t = (if has_Helper t then fatalerHelper t else helperWrapper t)"

fun call_Helper :: "fatalerHelper \<Rightarrow> fataler" where
  "call_Helper (fatalerHelper t) = Helper t"
| "call_Helper (helperWrapper t) = t"

definition helper_Helper :: "fataler \<Rightarrow> fataler" where
  "helper_Helper t = call_Helper (helper t)"

text \<open>
  The capture sink of the tests, before it has received anything, and a sink that
  behaves as \<open>testing.T\<close> does.
\<close>

definition capture :: fataler where
  "capture = \<lparr>returns = True, has_Helper = False, fatals = [], helpers = 0\<rparr>"

definition testing_T :: fataler where
  "testing_T = \<lparr>returns = False, has_Helper = True, fatals = [], helpers = 0\<rparr>"

section \<open>The assertions, with helper marking\<close>

text \<open>
  The variant of the package that marks its frames with \<open>Helper\<close> and leaves the
  location of a failure to the test runner. \<open>spew.Sdump\<close> is not part of the package: it
  is the parameter \<open>Sdump\<close> of every function that prints a value.
\<close>

record cond =
  Fataler :: fataler
  Format :: string
  FormatArgs :: "string list"
  Extra :: "gval list"

definition tsdump :: "(gval list \<Rightarrow> string) \<Rightarrow> gval list \<Rightarrow> string" where
  "tsdump Sdump a = strings_TrimSpace (Sdump a)"

definition String :: "(gval list \<Rightarrow> string) \<Rightarrow> cond \<Rightarrow> string" where
  "String Sdump c =
     (if Format c \<noteq> [] then fmt_Sprintf (Format c) (FormatArgs c) else [])
     @ (if length (Extra c) \<noteq> 0 then ''\<newline>'' @ tsdump Sdump (Extra c) else [])"

definition fatal :: "(gval list \<Rightarrow> string) \<Rightarrow> cond \<Rightarrow> outcome \<times> fataler" where
  "fatal Sdump c = Fatal (helper_Helper (Fataler c)) (String Sdump c)"

text \<open>
  \<open>Err\<close>: the error is \<open>None\<close> when it is nil and \<open>Some e\<close> when it is an error whose
  \<open>Error\<close> method returns \<open>e\<close>; the pattern is \<open>None\<close> when it is nil.
\<close>

definition Err ::
  "(gval list \<Rightarrow> string) \<Rightarrow> fataler \<Rightarrow> string option \<Rightarrow> regexp option \<Rightarrow> gval list
     \<Rightarrow> outcome \<times> fataler" where
  \<open>Err Sdump t0 err re a =
     (let t = helper_Helper t0 in
      case (err, re) of
        (None, None) \<Rightarrow> (Returned, t)
      | (None, Some r) \<Rightarrow>
          fatal Sdump \<lparr>Fataler = t,
            Format = ''expected error: "%s" but got a nil error'',
            FormatArgs = [expr r], Extra = a\<rparr>
      | (Some e, None) \<Rightarrow>
          fatal Sdump \<lparr>Fataler = t,
            Format = ''unexpected error: %+v'',
            FormatArgs = [e], Extra = a\<rparr>
      | (Some e, Some r) \<Rightarrow>
          if \<not> MatchString r e then
            fatal Sdump \<lparr>Fataler = t,
              Format = ''expected error: "%s" but got "%+v"'',
              FormatArgs = [expr r, e], Extra = a\<rparr>
          else (Returned, t))\<close>

definition DeepEqual ::
  "(gval list \<Rightarrow> string) \<Rightarrow> fataler \<Rightarrow> gval \<Rightarrow> gval \<Rightarrow> gval list \<Rightarrow> outcome \<times> fataler" where
  "DeepEqual Sdump t0 actual expected a =
     (let t = helper_Helper t0 in
      if \<not> reflect_DeepEqual actual expected then
        fatal Sdump \<lparr>Fataler = t,
          Format = ''expected these to be equal:\<newline>ACTUAL:\<newline>%s\<newline>EXPECTED:\<newline>%s'',
          FormatArgs = [Sdump [actual], tsdump Sdump [expected]], Extra = a\<rparr>
      else (Returned, t))"

definition NotDeepEqual ::
  "(gval list \<Rightarrow> string) \<Rightarrow> fataler \<Rightarrow> gval \<Rightarrow> gval \<Rightarrow> gval list \<Rightarrow> outcome \<times> fataler" where
  "NotDeepEqual Sdump t0 actual expected a =
     (let t = helper_Helper t0 in
      if reflect_DeepEqual actual expected then
        fatal Sdump \<lparr>Fataler = t,
          Format = ''expected two different values, but got the same:\<newline>%s'',
          FormatArgs = [tsdump Sdump [actual]], Extra = a\<rparr>
      else (Returned, t))"

text \<open>
  \<open>Nil\<close> prints the value before it looks at it, and slices the last byte off the
  trimmed dump: an empty dump is a slice bound out of range.
\<close>

definition Nil_ensure ::
  "(gval list \<Rightarrow> string) \<Rightarrow> fataler \<Rightarrow> gval \<Rightarrow> gval list \<Rightarrow> outcome \<times> fataler" where
  "Nil_ensure Sdump t0 v a =
     (let t = helper_Helper t0;
          vs = tsdump Sdump [v]
      in if vs = [] then (Panic SliceBoundsOutOfRange, t)
         else
           let sp = (if strings_Contains (butlast vs) ''\<newline>'' then ''\<newline>'' else '' '')
           in if v \<noteq> GNil then
                (case error_text v of
                   Some e \<Rightarrow>
                     fatal Sdump \<lparr>Fataler = t,
                       Format = ''unexpected error: %+v'',
                       FormatArgs = [e], Extra = a\<rparr>
                 | None \<Rightarrow>
                     fatal Sdump \<lparr>Fataler = t,
                       Format = ''expected nil value but got:%s%s'',
                       FormatArgs = [sp, vs], Extra = a\<rparr>)
              else (Returned, t))"

definition NotNil ::
  "(gval list \<Rightarrow> string) \<Rightarrow> fataler \<Rightarrow> gval \<Rightarrow> gval list \<Rightarrow> outcome \<times> fataler" where
  "NotNil Sdump t0 v a =
     (let t = helper_Helper t0 in
      if v = GNil then
        fatal Sdump \<lparr>Fataler = t,
          Format = ''expected a value but got nil'',
          FormatArgs = [], Extra = a\<rparr>
      else (Returned, t))"

definition True_ensure ::
  "(gval list \<Rightarrow> string) \<Rightarrow> fataler \<Rightarrow> bool \<Rightarrow> gval list \<Rightarrow> outcome \<times> fataler" where
  "True_ensure Sdump t0 v a =
     (let t = helper_Helper t0 in
      if \<not> v then
        fatal Sdump \<lparr>Fataler = t,
          Format = ''expected true but got false'',
          FormatArgs = [], Extra = a\<rparr>
      else (Returned, t))"

definition False_ensure ::
  "(gval list \<Rightarrow> string) \<Rightarrow> fataler \<Rightarrow> bool \<Rightarrow> gval list \<Rightarrow> outcome \<times> fataler" where
  "False_ensure Sdump t0 v a =
     (let t = helper_Helper t0 in
      if v then
        fatal Sdump \<lparr>Fataler = t,
          Format = ''expected false but got true'',
          FormatArgs = [], Extra = a\<rparr>
      else (Returned, t))"

definition StringContains ::
  "(gval list \<Rightarrow> string) \<Rightarrow> fataler \<Rightarrow> string \<Rightarrow> string \<Rightarrow> gval list \<Rightarrow> outcome \<times> fataler" where
  \<open>StringContains Sdump t0 s substr a =
     (let t = helper_Helper t0 in
      if \<not> strings_Contains s substr then
        let format =
          (if strings_Contains s ''\<newline>'' \<or> strings_Contains substr ''\<newline>''
           then ''expected substring was not found:\<newline>EXPECTED SUBSTRING:\<newline>%s\<newline>ACTUAL:\<newline>%s''
           else ''expected substring "%s" was not found in "%s"'')
        in fatal Sdump \<lparr>Fataler = t, Format = format,
             FormatArgs = [substr, s], Extra = a\<rparr>
      else (Returned, t))\<close>

definition StringDoesNotContain ::
  "(gval list \<Rightarrow> string) \<Rightarrow> fataler \<Rightarrow> string \<Rightarrow> string \<Rightarrow> gval list \<Rightarrow> outcome \<times> fataler" where
  \<open>StringDoesNotContain Sdump t0 s substr a =
     (let t = helper_Helper t0 in
      if strings_Contains s substr then
        fatal Sdump \<lparr>Fataler = t,
          Format = ''substring "%s" was not supposed to be found in "%s"'',
          FormatArgs = [substr, s], Extra = a\<rparr>
      else (Returned, t))\<close>

text \<open>
  \<open>toInterfaceSlice\<close> reads the length and the elements of its argument through
  \<open>reflect\<close>, which panics on a value that has no length or cannot be indexed. The
  elements of a string are its bytes.
\<close>

fun toInterfaceSlice :: "gval \<Rightarrow> panic + gval list" where
  "toInterfaceSlice (GSlice ty p xs) = Inr xs"
| "toInterfaceSlice (GArray ty xs) = Inr xs"
| "toInterfaceSlice (GString s) = Inr (map GUint8 s)"
| "toInterfaceSlice _ = Inl ReflectValueError"

text \<open>
  \<open>used\<close> is a Go map from index to bool: an index that was never stored reads as
  false.
\<close>

definition used_at :: "(nat \<rightharpoonup> bool) \<Rightarrow> nat \<Rightarrow> bool" where
  "used_at used i = (case used i of None \<Rightarrow> False | Some b \<Rightarrow> b)"

text \<open>
  The inner loop of \<open>SameElements\<close>, over the elements of the actual slice from index
  \<open>i\<close> on: the first index that is not used and whose element is deeply equal to \<open>a\<close>.
\<close>

fun SameElements_inner :: "gval \<Rightarrow> gval list \<Rightarrow> (nat \<rightharpoonup> bool) \<Rightarrow> nat \<Rightarrow> nat option" where
  "SameElements_inner a [] used i = None"
| "SameElements_inner a (b # bs) used i =
     (if \<not> used_at used i \<and> reflect_DeepEqual a b then Some i
      else SameElements_inner a bs used (Suc i))"

text \<open>
  The outer loop, over the expected elements that are left. After a report the loop
  goes on with the next expected element, when the sink has handed control back.
\<close>

fun SameElements_outer ::
  "(gval list \<Rightarrow> string) \<Rightarrow> gval \<Rightarrow> gval \<Rightarrow> gval list \<Rightarrow> gval list
     \<Rightarrow> gval list \<Rightarrow> (nat \<rightharpoonup> bool) \<Rightarrow> fataler \<Rightarrow> outcome \<times> fataler" where
  "SameElements_outer Sdump actual expected extra actualSlice [] used t = (Returned, t)"
| "SameElements_outer Sdump actual expected extra actualSlice (a # rest) used t =
     (case SameElements_inner a actualSlice used 0 of
        Some i \<Rightarrow>
          SameElements_outer Sdump actual expected extra actualSlice rest (used(i \<mapsto> True)) t
      | None \<Rightarrow>
          (case fatal Sdump \<lparr>Fataler = t,
                  Format = ''missing expected element:\<newline>ACTUAL:\<newline>%s\<newline>EXPECTED:\<newline>%s\<newline>MISSING ELEMENT\<newline>%s'',
                  FormatArgs = [tsdump Sdump [actual], tsdump Sdump [expected], tsdump Sdump [a]],
                  Extra = extra\<rparr> of
             (Returned, t') \<Rightarrow>
               SameElements_outer Sdump actual expected extra actualSlice rest used t'
           | (stopped, t') \<Rightarrow> (stopped, t')))"

definition SameElements ::
  "(gval list \<Rightarrow> string) \<Rightarrow> fataler \<Rightarrow> gval \<Rightarrow> gval \<Rightarrow> gval list \<Rightarrow> outcome \<times> fataler" where
  "SameElements Sdump t0 actual expected extra =
     (let t = helper_Helper t0 in
      case toInterfaceSlice actual of
        Inl p \<Rightarrow> (Panic p, t)
      | Inr actualSlice \<Rightarrow>
          (case toInterfaceSlice expected of
             Inl p \<Rightarrow> (Panic p, t)
           | Inr expectedSlice \<Rightarrow>
               (case (if length actualSlice \<noteq> length expectedSlice then
                        fatal Sdump \<lparr>Fataler = t,
                          Format = ''expected same elements but found slices of different lengths:\<newline>ACTUAL:\<newline>%s\<newline>EXPECTED\<newline>%s'',
                          FormatArgs = [tsdump Sdump [actual], tsdump Sdump [expected]],
                          Extra = extra\<rparr>
                      else (Returned, t)) of
                  (Returned, t') \<Rightarrow>
                    SameElements_outer Sdump actual expected extra actualSlice expectedSlice
                      Map.empty t'
                | (stopped, t') \<Rightarrow> (stopped, t'))))"

text \<open>
  \<open>PanicDeepEqual\<close> runs as a deferred call. \<open>recovered\<close> is what \<open>recover()\<close> returns
  to it: the value of the panic under way, or nil when there is none.
\<close>

definition PanicDeepEqual ::
  "(gval list \<Rightarrow> string) \<Rightarrow> gval \<Rightarrow> fataler \<Rightarrow> gval \<Rightarrow> gval list \<Rightarrow> outcome \<times> fataler" where
  "PanicDeepEqual Sdump recovered t0 expected a =
     (let t = helper_Helper t0 in
      if expected = GNil then
        (Panic (PanicValue ''can't pass nil to ensure.PanicDeepEqual''), t)
      else
        let actual = recovered in
        if \<not> reflect_DeepEqual actual expected then
          fatal Sdump \<lparr>Fataler = t,
            Format = ''expected these to be equal:\<newline>ACTUAL:\<newline>%s\<newline>EXPECTED:\<newline>%s'',
            FormatArgs = [Sdump [actual], tsdump Sdump [expected]], Extra = a\<rparr>
        else (Returned, t))"

section \<open>The assertions, with the location read off the call stack\<close>

text \<open>
  The variant of \<open>ensure.go\<close> that computes the location of a failure itself. Its
  functions carry the suffix \<open>_sw\<close> here. What it takes from outside the package is
  gathered in a record: \<open>stack.Callers\<close>, as it answers inside \<open>String\<close> at the moment of
  the failure (the frames left after the given number of frames is skipped, innermost
  first), the \<open>String\<close> method of a \<open>stack.Stack\<close>, \<open>spew.Sdump\<close> and \<open>subset.Check\<close>.
\<close>

record frame =
  File :: string
  Line :: int
  Name :: string

record runtime =
  stack_Callers :: "nat \<Rightarrow> frame list"
  Stack_String :: "frame list \<Rightarrow> string"
  spew_Sdump :: "gval list \<Rightarrow> string"
  subset_Check :: "gval \<Rightarrow> gval \<Rightarrow> bool"

record cond_sw = cond +
  Skip :: nat

definition deleteSelf :: string where
  "deleteSelf = strings_Repeat [CHR 0x08] 15"

definition isTestFrame :: "frame \<Rightarrow> bool" where
  "isTestFrame f = strings_HasPrefix (Name f) ''Test''"

text \<open>
  The loop of \<open>pstack\<close>: \<open>snew\<close> collects the frames seen so far; the loop returns at the
  first test frame, and falls through (\<open>None\<close>) when there is none.
\<close>

fun pstack_loop :: "frame list \<Rightarrow> frame list \<Rightarrow> frame list option" where
  "pstack_loop snew [] = None"
| "pstack_loop snew (f # fs) =
     (let snew' = snew @ [f] in
      if isTestFrame f then Some snew' else pstack_loop snew' fs)"

definition pstack :: "(frame list \<Rightarrow> string) \<Rightarrow> frame list \<Rightarrow> panic + string" where
  "pstack render s =
     (case s of
        [] \<Rightarrow> Inl IndexOutOfRange
      | first # _ \<Rightarrow>
          if isTestFrame first then
            Inr (fmt_Sprintf ''%s:%d: '' [filepath_Base (File first), strconv_Itoa (Line first)])
          else
            (case pstack_loop [] s of
               Some snew \<Rightarrow> Inr (''        '' @ render snew @ ''\<newline>'')
             | None \<Rightarrow> Inr (''        '' @ render s @ ''\<newline>'')))"

definition String_sw :: "runtime \<Rightarrow> cond_sw \<Rightarrow> panic + string" where
  "String_sw rt c =
     (case pstack (Stack_String rt) (stack_Callers rt (Skip c + 1)) of
        Inl p \<Rightarrow> Inl p
      | Inr location \<Rightarrow>
          Inr (fmt_Sprintf ''%s%s'' [deleteSelf, location]
               @ (if Format c \<noteq> [] then fmt_Sprintf (Format c) (FormatArgs c) else [])
               @ (if length (Extra c) \<noteq> 0
                  then ''\<newline>'' @ tsdump (spew_Sdump rt) (Extra c) else [])))"

definition fatal_sw :: "runtime \<Rightarrow> cond_sw \<Rightarrow> outcome \<times> fataler" where
  "fatal_sw rt c0 =
     (let c = c0\<lparr>Skip := Skip c0 + 2\<rparr> in
      case String_sw rt c of
        Inl p \<Rightarrow> (Panic p, Fataler c)
      | Inr msg \<Rightarrow> Fatal (Fataler c) msg)"

definition Err_sw ::
  "runtime \<Rightarrow> fataler \<Rightarrow> string option \<Rightarrow> regexp option \<Rightarrow> gval list \<Rightarrow> outcome \<times> fataler" where
  \<open>Err_sw rt t err re a =
     (case (err, re) of
        (None, None) \<Rightarrow> (Returned, t)
      | (None, Some r) \<Rightarrow>
          fatal_sw rt \<lparr>Fataler = t,
            Format = ''expected error: "%s" but got a nil error'',
            FormatArgs = [expr r], Extra = a, Skip = 0\<rparr>
      | (Some e, None) \<Rightarrow>
          fatal_sw rt \<lparr>Fataler = t,
            Format = ''unexpected error: %s'',
            FormatArgs = [e], Extra = a, Skip = 0\<rparr>
      | (Some e, Some r) \<Rightarrow>
          if \<not> MatchString r e then
            fatal_sw rt \<lparr>Fataler = t,
              Format = ''expected error: "%s" but got "%s"'',
              FormatArgs = [expr r, e], Extra = a, Skip = 0\<rparr>
          else (Returned, t))\<close>

definition DeepEqual_sw ::
  "runtime \<Rightarrow> fataler \<Rightarrow> gval \<Rightarrow> gval \<Rightarrow> gval list \<Rightarrow> outcome \<times> fataler" where
  "DeepEqual_sw rt t actual expected a =
     (if \<not> reflect_DeepEqual actual expected then
        fatal_sw rt \<lparr>Fataler = t,
          Format = ''expected these to be equal:\<newline>ACTUAL:\<newline>%s\<newline>EXPECTED:\<newline>%s'',
          FormatArgs = [spew_Sdump rt [actual], tsdump (spew_Sdump rt) [expected]],
          Extra = a, Skip = 0\<rparr>
      else (Returned, t))"

definition NotDeepEqual_sw ::
  "runtime \<Rightarrow> fataler \<Rightarrow> gval \<Rightarrow> gval \<Rightarrow> gval list \<Rightarrow> outcome \<times> fataler" where
  "NotDeepEqual_sw rt t actual expected a =
     (if reflect_DeepEqual actual expected then
        fatal_sw rt \<lparr>Fataler = t,
          Format = ''expected two different values, but got the same:\<newline>%s'',
          FormatArgs = [tsdump (spew_Sdump rt) [actual]], Extra = a, Skip = 0\<rparr>
      else (Returned, t))"

definition Subset_sw ::
  "runtime \<Rightarrow> fataler \<Rightarrow> gval \<Rightarrow> gval \<Rightarrow> gval list \<Rightarrow> outcome \<times> fataler" where
  "Subset_sw rt t actual sub a =
     (if \<not> subset_Check rt sub actual then
        fatal_sw rt \<lparr>Fataler = t,
          Format = ''expected subset not found:\<newline>ACTUAL:\<newline>%s\<newline>EXPECTED SUBSET\<newline>%s'',
          FormatArgs = [spew_Sdump rt [actual], tsdump (spew_Sdump rt) [sub]],
          Extra = a, Skip = 0\<rparr>
      else (Returned, t))"

definition Nil_sw ::
  "runtime \<Rightarrow> fataler \<Rightarrow> gval \<Rightarrow> gval list \<Rightarrow> outcome \<times> fataler" where
  "Nil_sw rt t v a =
     (let vs = tsdump (spew_Sdump rt) [v]
      in if vs = [] then (Panic SliceBoundsOutOfRange, t)
         else
           let sp = (if strings_Contains (butlast vs) ''\<newline>'' then ''\<newline>'' else '' '')
           in if v \<noteq> GNil then
                (case error_text v of
                   Some e \<Rightarrow>
                     fatal_sw rt \<lparr>Fataler = t,
                       Format = ''unexpected error: %s'',
                       FormatArgs = [e], Extra = a, Skip = 0\<rparr>
                 | None \<Rightarrow>
                     fatal_sw rt \<lparr>Fataler = t,
                       Format = ''expected nil value but got:%s%s'',
                       FormatArgs = [sp, vs], Extra = a, Skip = 0\<rparr>)
              else (Returned, t))"

definition NotNil_sw ::
  "runtime \<Rightarrow> fataler \<Rightarrow> gval \<Rightarrow> gval list \<Rightarrow> outcome \<times> fataler" where
  "NotNil_sw rt t v a =
     (if v = GNil then
        fatal_sw rt \<lparr>Fataler = t,
          Format = ''expected a value but got nil'',
          FormatArgs = [], Extra = a, Skip = 0\<rparr>
      else (Returned, t))"

definition True_sw ::
  "runtime \<Rightarrow> fataler \<Rightarrow> bool \<Rightarrow> gval list \<Rightarrow> outcome \<times> fataler" where
  "True_sw rt t v a =
     (if \<not> v then
        fatal_sw rt \<lparr>Fataler = t,
          Format = ''expected true but got false'',
          FormatArgs = [], Extra = a, Skip = 0\<rparr>
      else (Returned, t))"

definition StringContains_sw ::
  "runtime \<Rightarrow> fataler \<Rightarrow> string \<Rightarrow> string \<Rightarrow> gval list \<Rightarrow> outcome \<times> fataler" where
  \<open>StringContains_sw rt t s substr a =
     (if \<not> strings_Contains s substr then
        fatal_sw rt \<lparr>Fataler = t,
          Format = ''expected substring "%s" was not found in "%s"'',
          FormatArgs = [substr, s], Extra = a, Skip = 0\<rparr>
      else (Returned, t))\<close>

definition StringDoesNotContain_sw ::
  "runtime \<Rightarrow> fataler \<Rightarrow> string \<Rightarrow> string \<Rightarrow> gval list \<Rightarrow> outcome \<times> fataler" where
  \<open>StringDoesNotContain_sw rt t s substr a =
     (if strings_Contains s substr then
        fatal_sw rt \<lparr>Fataler = t,
          Format = ''substring "%s" was not supposed to be found in "%s"'',
          FormatArgs = [substr, s], Extra = a, Skip = 0\<rparr>
      else (Returned, t))\<close>

fun SameElements_outer_sw ::
  "runtime \<Rightarrow> gval \<Rightarrow> gval \<Rightarrow> gval list \<Rightarrow> gval list
     \<Rightarrow> gval list \<Rightarrow> (nat \<rightharpoonup> bool) \<Rightarrow> fataler \<Rightarrow> outcome \<times> fataler" where
  "SameElements_outer_sw rt actual expected extra actualSlice [] used t = (Returned, t)"
| "SameElements_outer_sw rt actual expected extra actualSlice (a # rest) used t =
     (case SameElements_inner a actualSlice used 0 of
        Some i \<Rightarrow>
          SameElements_outer_sw rt actual expected extra actualSlice rest (used(i \<mapsto> True)) t
      | None \<Rightarrow>
          (case fatal_sw rt \<lparr>Fataler = t,
                  Format = ''missing expected element:\<newline>ACTUAL:\<newline>%s\<newline>EXPECTED:\<newline>%s\<newline>MISSING ELEMENT\<newline>%s'',
                  FormatArgs = [tsdump (spew_Sdump rt) [actual], tsdump (spew_Sdump rt) [expected],
                    tsdump (spew_Sdump rt) [a]],
                  Extra = extra, Skip = 0\<rparr> of
             (Returned, t') \<Rightarrow>
               SameElements_outer_sw rt actual expected extra actualSlice rest used t'
           | (stopped, t') \<Rightarrow> (stopped, t')))"

definition SameElements_sw ::
  "runtime \<Rightarrow> fataler \<Rightarrow> gval \<Rightarrow> gval \<Rightarrow> gval list \<Rightarrow> outcome \<times> fataler" where
  "SameElements_sw rt t actual expected extra =
     (case toInterfaceSlice actual of
        Inl p \<Rightarrow> (Panic p, t)
      | Inr actualSlice \<Rightarrow>
          (case toInterfaceSlice expected of
             Inl p \<Rightarrow> (Panic p, t)
           | Inr expectedSlice \<Rightarrow>
               (case (if length actualSlice \<noteq> length expectedSlice then
                        fatal_sw rt \<lparr>Fataler = t,
                          Format = ''expected same elements but found slices of different lengths:\<newline>ACTUAL:\<newline>%s\<newline>EXPECTED\<newline>%s'',
                          FormatArgs = [tsdump (spew_Sdump rt) [actual],
                            tsdump (spew_Sdump rt) [expected]],
                          Extra = extra, Skip = 0\<rparr>
                      else (Returned, t)) of
                  (Returned, t') \<Rightarrow>
                    SameElements_outer_sw rt actual expected extra actualSlice expectedSlice
                      Map.empty t'
                | (stopped, t') \<Rightarrow> (stopped, t'))))"

section \<open>Vocabulary of the statements\<close>

text \<open>
  What the formatter appends for the extra values of a call: nothing when there are
  none, else a line feed and their trimmed dump.
\<close>

definition extras_text :: "(gval list \<Rightarrow> string) \<Rightarrow> gval list \<Rightarrow> string" where
  "extras_text Sdump a = (if a = [] then [] else ''\<newline>'' @ tsdump Sdump a)"

section \<open>A printer and a call stack for the examples\<close>

text \<open>
  The examples below run the assertions on the inputs of the package's tests. They
  need a printer and a call stack. \<open>example_Sdump\<close> prints numbers, strings and slices
  of them the way the expected outputs of the tests show them, one value per line, and
  the fields of a struct without their names; \<open>example_Stack_String\<close> prints a frame as
  file, line and function name, one frame per line.
\<close>

fun join :: "string \<Rightarrow> string list \<Rightarrow> string" where
  "join sep [] = []"
| "join sep [x] = x"
| "join sep (x # y # ys) = x @ sep @ join sep (y # ys)"

fun example_dump :: "gval \<Rightarrow> string" where
  "example_dump GNil = ''(interface {}) <nil>''"
| "example_dump (GBool b) = ''(bool) '' @ (if b then ''true'' else ''false'')"
| "example_dump (GInt i) = ''(int) '' @ strconv_Itoa i"
| "example_dump (GUint8 c) = ''(uint8) '' @ strconv_Itoa (int (of_char c))"
| "example_dump (GFloat64 f) = ''(float64) '' @ (case f of NaN \<Rightarrow> ''NaN'' | Num r \<Rightarrow> ''?'')"
| \<open>example_dump (GString s) =
     ''(string) (len='' @ strconv_Itoa (int (length s)) @ '') "'' @ s @ ''"''\<close>
| "example_dump (GError e) = ''(*errors.errorString)('' @ e @ '')''"
| "example_dump (GNilPtr ty e) = ''('' @ ty @ '')(<nil>)''"
| "example_dump (GFunc f) = ''(func()) '' @ f"
| "example_dump (GSlice ty p xs) =
     ''('' @ ty @ '') (len='' @ strconv_Itoa (int (length xs)) @ '' cap=''
       @ strconv_Itoa (int (length xs)) @ '') {\<newline>''
       @ join '',\<newline>'' (map (\<lambda>x. '' '' @ example_dump x) xs) @ ''\<newline>}''"
| "example_dump (GArray ty xs) =
     ''('' @ ty @ '') (len='' @ strconv_Itoa (int (length xs)) @ '' cap=''
       @ strconv_Itoa (int (length xs)) @ '') {\<newline>''
       @ join '',\<newline>'' (map (\<lambda>x. '' '' @ example_dump x) xs) @ ''\<newline>}''"
| "example_dump (GStruct ty xs) =
     ''('' @ ty @ '') {\<newline>''
       @ join '',\<newline>'' (map (\<lambda>x. '' '' @ example_dump x) xs) @ ''\<newline>}''"

definition example_Sdump :: "gval list \<Rightarrow> string" where
  "example_Sdump a = concat (map (\<lambda>v. example_dump v @ ''\<newline>'') a)"

definition example_Stack_String :: "frame list \<Rightarrow> string" where
  "example_Stack_String s =
     join ''\<newline>'' (map (\<lambda>f. File f @ '':'' @ strconv_Itoa (Line f) @ '' '' @ Name f) s)"

text \<open>
  The stack inside \<open>String\<close> when a test function has called an assertion at line
  168 of the test file, and when it has called it through the function \<open>indirect\<close>.
\<close>

definition direct_stack :: "frame list" where
  "direct_stack =
     [\<lparr>File = ''github.com/facebookgo/ensure/ensure.go'', Line = 44, Name = ''cond.String''\<rparr>,
      \<lparr>File = ''github.com/facebookgo/ensure/ensure.go'', Line = 59, Name = ''fatal''\<rparr>,
      \<lparr>File = ''github.com/facebookgo/ensure/ensure.go'', Line = 189, Name = ''StringContains''\<rparr>,
      \<lparr>File = ''github.com/facebookgo/ensure/ensure_test.go'', Line = 168,
        Name = ''TestStringContains''\<rparr>,
      \<lparr>File = ''testing/testing.go'', Line = 447, Name = ''tRunner''\<rparr>,
      \<lparr>File = ''runtime/asm_amd64.s'', Line = 2232, Name = ''goexit''\<rparr>]"

definition indirect_stack :: "frame list" where
  "indirect_stack =
     [\<lparr>File = ''github.com/facebookgo/ensure/ensure.go'', Line = 44, Name = ''cond.String''\<rparr>,
      \<lparr>File = ''github.com/facebookgo/ensure/ensure.go'', Line = 59, Name = ''fatal''\<rparr>,
      \<lparr>File = ''github.com/facebookgo/ensure/ensure.go'', Line = 189, Name = ''StringContains''\<rparr>,
      \<lparr>File = ''github.com/facebookgo/ensure/ensure_test.go'', Line = 188, Name = ''indirect''\<rparr>,
      \<lparr>File = ''github.com/facebookgo/ensure/ensure_test.go'', Line = 195,
        Name = ''TestIndirectStackTrace''\<rparr>,
      \<lparr>File = ''testing/testing.go'', Line = 447, Name = ''tRunner''\<rparr>,
      \<lparr>File = ''runtime/asm_amd64.s'', Line = 2232, Name = ''goexit''\<rparr>]"

definition example_runtime :: "frame list \<Rightarrow> runtime" where
  "example_runtime stack =
     \<lparr>stack_Callers = (\<lambda>skip. drop skip stack),
      Stack_String = example_Stack_String,
      spew_Sdump = example_Sdump,
      subset_Check = reflect_DeepEqual\<rparr>"

section \<open>Facts about the library functions\<close>

lemma float64_eq_iff: "float64_eq a b \<longleftrightarrow> a = b \<and> a \<noteq> NaN"
  by (cases a; cases b) auto

lemma DeepEqual_self_iff:
  "reflect_DeepEqual x x \<longleftrightarrow> comparable x"
  "deepValueEqual_elems xs xs \<longleftrightarrow> comparable_elems xs"
  by (induction x and xs rule: comparable_comparable_elems.induct)
     (auto simp: float64_eq_iff)

lemma DeepEqual_sym:
  "reflect_DeepEqual x y \<Longrightarrow> reflect_DeepEqual y x"
  "deepValueEqual_elems xs ys \<Longrightarrow> deepValueEqual_elems ys xs"
  by (induction x y and xs ys rule: reflect_DeepEqual_deepValueEqual_elems.induct)
     (auto simp: float64_eq_iff split: gval.splits list.splits)

lemma DeepEqual_trans:
  "reflect_DeepEqual x y \<Longrightarrow> reflect_DeepEqual y z \<Longrightarrow> reflect_DeepEqual x z"
  "deepValueEqual_elems xs ys \<Longrightarrow> deepValueEqual_elems ys zs \<Longrightarrow> deepValueEqual_elems xs zs"
  by (induction x y and xs ys arbitrary: z and zs rule: reflect_DeepEqual_deepValueEqual_elems.induct)
     (auto simp: float64_eq_iff split: gval.splits list.splits)

lemma strings_Contains_sublist: "strings_Contains s sub \<longleftrightarrow> sublist sub s"
  by (induction s) (auto simp: sublist_Cons_right)

lemma strings_Contains_iff: "strings_Contains s sub \<longleftrightarrow> (\<exists>p q. s = p @ sub @ q)"
  by (simp add: strings_Contains_sublist sublist_def)

lemma strings_Contains_char: "strings_Contains s [c] \<longleftrightarrow> c \<in> set s"
  by (induction s) auto

lemma TrimLeft_none: "find (\<lambda>q. q \<noteq> [] \<and> prefix q (TrimLeft seqs s)) seqs = None"
proof (induction seqs s rule: TrimLeft.induct)
  case (1 seqs s)
  show ?case
  proof (cases "find (\<lambda>q. q \<noteq> [] \<and> prefix q s) seqs")
    case None
    then show ?thesis by (subst TrimLeft.simps) simp
  next
    case (Some q)
    with 1 show ?thesis by (subst TrimLeft.simps) simp
  qed
qed

lemma TrimLeft_hd: "[c] \<in> set seqs \<Longrightarrow> TrimLeft seqs s = r \<Longrightarrow> r = [] \<or> hd r \<noteq> c"
  using TrimLeft_none [of seqs s]
  by (cases r) (auto simp: find_None_iff)

lemma TrimSpace_last:
  assumes "strings_TrimSpace s \<noteq> []"
  shows "last (strings_TrimSpace s) \<noteq> CHR 0x0A"
proof -
  define r where "r = TrimLeft (map rev unicode_spaces) (rev (TrimLeft unicode_spaces s))"
  have "[CHR 0x0A] \<in> set (map rev unicode_spaces)"
    by (simp add: unicode_spaces_def)
  then have "r = [] \<or> hd r \<noteq> CHR 0x0A"
    using TrimLeft_hd r_def by blast
  moreover have "strings_TrimSpace s = rev r"
    by (simp add: strings_TrimSpace_def r_def)
  ultimately show ?thesis using assms by (simp add: last_rev)
qed

lemma butlast_member:
  assumes "vs \<noteq> []" "last vs \<noteq> c"
  shows "c \<in> set (butlast vs) \<longleftrightarrow> c \<in> set vs"
  using assms by (cases vs rule: rev_cases) auto

lemma tsdump_line_break:
  assumes "tsdump Sdump a \<noteq> []"
  shows "strings_Contains (butlast (tsdump Sdump a)) ''\<newline>'' \<longleftrightarrow> CHR ''\<newline>'' \<in> set (tsdump Sdump a)"
  using assms TrimSpace_last [of "Sdump a"]
  by (simp add: tsdump_def strings_Contains_char butlast_member)

section \<open>Facts about the sink and the formatter\<close>

lemma Fatal_fst: "fst (Fatal t m) = (if returns t then Returned else Goexit)"
  by (simp add: Fatal_def)

lemma Fatal_fatals: "fatals (snd (Fatal t m)) = fatals t @ [m]"
  by (simp add: Fatal_def)

lemma helper_Helper_fatals: "fatals (helper_Helper t) = fatals t"
  by (simp add: helper_Helper_def helper_def Helper_def)

lemma helper_Helper_returns: "returns (helper_Helper t) = returns t"
  by (simp add: helper_Helper_def helper_def Helper_def)

lemma fatal_fatals: "fatals (snd (fatal Sdump c)) = fatals (Fataler c) @ [String Sdump c]"
  by (simp add: fatal_def Fatal_fatals helper_Helper_fatals)

lemma String_text:
  "String Sdump \<lparr>Fataler = t, Format = f, FormatArgs = args, Extra = a\<rparr> =
     (if f \<noteq> [] then fmt_Sprintf f args else []) @ extras_text Sdump a"
  by (simp add: String_def extras_text_def)

lemma fatal_sw_Fatal:
  assumes "pstack (Stack_String rt) (stack_Callers rt 3) = Inr loc"
  shows "fatal_sw rt \<lparr>Fataler = t, Format = f, FormatArgs = args, Extra = a, Skip = 0\<rparr> =
     Fatal t (deleteSelf @ loc @ (if f \<noteq> [] then fmt_Sprintf f args else [])
                @ extras_text (spew_Sdump rt) a)"
  using assms
  by (simp add: fatal_sw_def String_sw_def extras_text_def numeral_3_eq_3)

lemma append_self_conv_list: "xs @ ys = xs \<longleftrightarrow> ys = []"
  by simp

section \<open>The error assertion\<close>

lemma Err_fatals:
  \<open>fatals (snd (Err Sdump t err re a)) =
     fatals t @
     (case (err, re) of
        (None, None) \<Rightarrow> []
      | (None, Some r) \<Rightarrow>
          [''expected error: "'' @ expr r @ ''" but got a nil error'' @ extras_text Sdump a]
      | (Some e, None) \<Rightarrow> [''unexpected error: '' @ e @ extras_text Sdump a]
      | (Some e, Some r) \<Rightarrow>
          if MatchString r e then []
          else [''expected error: "'' @ expr r @ ''" but got "'' @ e @ ''"''
                @ extras_text Sdump a])\<close>
  by (simp add: Err_def fatal_fatals String_text helper_Helper_fatals split: option.splits)

lemma Err_sw_fatals:
  assumes "pstack (Stack_String rt) (stack_Callers rt 3) = Inr loc"
  shows \<open>fatals (snd (Err_sw rt t err re a)) =
     fatals t @
     (case (err, re) of
        (None, None) \<Rightarrow> []
      | (None, Some r) \<Rightarrow>
          [deleteSelf @ loc @ ''expected error: "'' @ expr r @ ''" but got a nil error''
           @ extras_text (spew_Sdump rt) a]
      | (Some e, None) \<Rightarrow>
          [deleteSelf @ loc @ ''unexpected error: '' @ e @ extras_text (spew_Sdump rt) a]
      | (Some e, Some r) \<Rightarrow>
          if MatchString r e then []
          else [deleteSelf @ loc @ ''expected error: "'' @ expr r @ ''" but got "'' @ e @ ''"''
                @ extras_text (spew_Sdump rt) a])\<close>
  by (simp add: Err_sw_def fatal_sw_Fatal [OF assms] Fatal_fatals split: option.splits)

lemma Err_passes_iff:
  \<open>(case (err, re) of
      (None, None) \<Rightarrow> []
    | (None, Some r) \<Rightarrow> [m1 r]
    | (Some e, None) \<Rightarrow> [m2 e]
    | (Some e, Some r) \<Rightarrow> if MatchString r e then [] else [m3 e r]) \<noteq> []
   \<longleftrightarrow> \<not> ((err = None \<and> re = None) \<or> (\<exists>e r. err = Some e \<and> re = Some r \<and> MatchString r e))\<close>
  by (auto split: option.splits)

text \<open>
  C4. \<open>Err\<close> hands the sink a message exactly when it is not the case that the error and
  the pattern are both nil, or that the error is not nil and the pattern matches its
  text. With both nil it returns at once and the sink receives nothing. In each failing
  case the message is the one of that case, followed by the extra values: a nil error
  with a pattern, an error with no pattern, an error the pattern does not match. The
  variant that resolves the location puts the backspaces and the location in front of
  the same message.
\<close>

theorem Err_dispatch:
  \<open>fatals (snd (Err Sdump t err re a)) =
      fatals t @
      (case (err, re) of
         (None, None) \<Rightarrow> []
       | (None, Some r) \<Rightarrow>
           [''expected error: "'' @ expr r @ ''" but got a nil error'' @ extras_text Sdump a]
       | (Some e, None) \<Rightarrow> [''unexpected error: '' @ e @ extras_text Sdump a]
       | (Some e, Some r) \<Rightarrow>
           if MatchString r e then []
           else [''expected error: "'' @ expr r @ ''" but got "'' @ e @ ''"''
                 @ extras_text Sdump a])
   \<and> (fatals (snd (Err Sdump t err re a)) \<noteq> fatals t \<longleftrightarrow>
        \<not> ((err = None \<and> re = None)
           \<or> (\<exists>e r. err = Some e \<and> re = Some r \<and> MatchString r e)))
   \<and> Err Sdump t None None a = (Returned, helper_Helper t)
   \<and> (pstack (Stack_String rt) (stack_Callers rt 3) = Inr loc \<longrightarrow>
        fatals (snd (Err_sw rt t err re a)) =
          fatals t @
          (case (err, re) of
             (None, None) \<Rightarrow> []
           | (None, Some r) \<Rightarrow>
               [deleteSelf @ loc @ ''expected error: "'' @ expr r @ ''" but got a nil error''
                @ extras_text (spew_Sdump rt) a]
           | (Some e, None) \<Rightarrow>
               [deleteSelf @ loc @ ''unexpected error: '' @ e @ extras_text (spew_Sdump rt) a]
           | (Some e, Some r) \<Rightarrow>
               if MatchString r e then []
               else [deleteSelf @ loc @ ''expected error: "'' @ expr r @ ''" but got "'' @ e
                     @ ''"'' @ extras_text (spew_Sdump rt) a])
        \<and> (fatals (snd (Err_sw rt t err re a)) \<noteq> fatals t \<longleftrightarrow>
             \<not> ((err = None \<and> re = None)
                \<or> (\<exists>e r. err = Some e \<and> re = Some r \<and> MatchString r e))))
   \<and> Err_sw rt t None None a = (Returned, t)\<close>
proof (intro conjI impI)
  show \<open>fatals (snd (Err Sdump t err re a)) \<noteq> fatals t \<longleftrightarrow>
        \<not> ((err = None \<and> re = None)
           \<or> (\<exists>e r. err = Some e \<and> re = Some r \<and> MatchString r e))\<close>
    unfolding Err_fatals append_self_conv_list by (rule Err_passes_iff)
  show "Err Sdump t None None a = (Returned, helper_Helper t)"
    by (simp add: Err_def)
  show "Err_sw rt t None None a = (Returned, t)"
    by (simp add: Err_sw_def)
next
  assume loc: "pstack (Stack_String rt) (stack_Callers rt 3) = Inr loc"
  show \<open>fatals (snd (Err_sw rt t err re a)) \<noteq> fatals t \<longleftrightarrow>
        \<not> ((err = None \<and> re = None)
           \<or> (\<exists>e r. err = Some e \<and> re = Some r \<and> MatchString r e))\<close>
    unfolding Err_sw_fatals [OF loc] append_self_conv_list by (rule Err_passes_iff)
qed (rule Err_fatals Err_sw_fatals, assumption?)+

lemma direct_location:
  "pstack (Stack_String (example_runtime direct_stack))
     (stack_Callers (example_runtime direct_stack) 3) = Inr ''ensure_test.go:168: ''"
  by (simp add: example_runtime_def direct_stack_def pstack_def isTestFrame_def
      strings_HasPrefix_def filepath_Base_def strconv_Itoa_def digits.simps)

theorem Err_dispatch_witness:
  \<open>fatals (snd (Err example_Sdump capture (Some ''foo'') None [])) = [''unexpected error: foo'']
   \<and> fatals (snd (Err_sw (example_runtime direct_stack) capture (Some ''foo'') None [])) =
       [deleteSelf @ ''ensure_test.go:168: unexpected error: foo'']
   \<and> fatals (snd (Err example_Sdump capture None None [])) = []\<close>
  using Err_dispatch [of example_Sdump capture "Some ''foo''" None "[]"
      "example_runtime direct_stack" "''ensure_test.go:168: ''"]
    Err_dispatch [of example_Sdump capture None None "[]"
      "example_runtime direct_stack" "''ensure_test.go:168: ''"]
    direct_location
  by (simp add: capture_def extras_text_def)

section \<open>The substring assertion\<close>

lemma StringContains_fatals:
  \<open>fatals (snd (StringContains Sdump t s substr a)) =
     fatals t @
     (if (\<exists>p q. s = p @ substr @ q) then []
      else [(if CHR ''\<newline>'' \<in> set s \<or> CHR ''\<newline>'' \<in> set substr
             then ''expected substring was not found:\<newline>EXPECTED SUBSTRING:\<newline>'' @ substr
                  @ ''\<newline>ACTUAL:\<newline>'' @ s
             else ''expected substring "'' @ substr @ ''" was not found in "'' @ s @ ''"'')
            @ extras_text Sdump a])\<close>
proof (cases "strings_Contains s substr")
  case True
  then show ?thesis
    by (simp add: StringContains_def helper_Helper_fatals flip: strings_Contains_iff)
next
  case False
  then show ?thesis
    by (simp add: StringContains_def fatal_fatals String_text helper_Helper_fatals
        strings_Contains_char Let_def flip: strings_Contains_iff)
qed

lemma StringContains_sw_fatals:
  assumes "pstack (Stack_String rt) (stack_Callers rt 3) = Inr loc"
  shows \<open>fatals (snd (StringContains_sw rt t s substr a)) =
     fatals t @
     (if (\<exists>p q. s = p @ substr @ q) then []
      else [deleteSelf @ loc @ ''expected substring "'' @ substr @ ''" was not found in "'' @ s
            @ ''"'' @ extras_text (spew_Sdump rt) a])\<close>
  by (simp add: StringContains_sw_def fatal_sw_Fatal [OF assms] Fatal_fatals
      flip: strings_Contains_iff)

text \<open>
  C3, as amended. \<open>StringContains\<close> hands the sink a message exactly when \<open>substr\<close> is not
  a substring of \<open>s\<close>. In the variant that marks helper frames the message is the
  multi-line block (\<open>expected substring was not found:\<close>, \<open>EXPECTED SUBSTRING:\<close>,
  \<open>ACTUAL:\<close>) exactly when \<open>s\<close> or \<open>substr\<close> holds a line feed, and the single-line quoted
  form otherwise. In the variant that resolves the location the message is always the
  location followed by the single-line quoted form.
\<close>

theorem StringContains_dispatch:
  \<open>fatals (snd (StringContains Sdump t s substr a)) =
      fatals t @
      (if (\<exists>p q. s = p @ substr @ q) then []
       else [(if CHR ''\<newline>'' \<in> set s \<or> CHR ''\<newline>'' \<in> set substr
              then ''expected substring was not found:\<newline>EXPECTED SUBSTRING:\<newline>'' @ substr
                   @ ''\<newline>ACTUAL:\<newline>'' @ s
              else ''expected substring "'' @ substr @ ''" was not found in "'' @ s @ ''"'')
             @ extras_text Sdump a])
   \<and> (pstack (Stack_String rt) (stack_Callers rt 3) = Inr loc \<longrightarrow>
        fatals (snd (StringContains_sw rt t s substr a)) =
          fatals t @
          (if (\<exists>p q. s = p @ substr @ q) then []
           else [deleteSelf @ loc @ ''expected substring "'' @ substr
                 @ ''" was not found in "'' @ s @ ''"'' @ extras_text (spew_Sdump rt) a]))\<close>
  using StringContains_fatals StringContains_sw_fatals by blast

lemma not_substring_example:
  "\<not> (\<exists>p q. ''foo\<newline>baz'' = p @ ''bar'' @ q)" "\<not> (\<exists>p q. ''foo'' = p @ ''bar'' @ q)"
proof -
  have "\<not> strings_Contains ''foo\<newline>baz'' ''bar''" "\<not> strings_Contains ''foo'' ''bar''"
    by simp_all
  then show "\<not> (\<exists>p q. ''foo\<newline>baz'' = p @ ''bar'' @ q)" "\<not> (\<exists>p q. ''foo'' = p @ ''bar'' @ q)"
    unfolding strings_Contains_iff by blast+
qed

theorem StringContains_dispatch_witness:
  \<open>fatals (snd (StringContains example_Sdump capture ''foo\<newline>baz'' ''bar'' [])) =
     [''expected substring was not found:\<newline>EXPECTED SUBSTRING:\<newline>bar\<newline>ACTUAL:\<newline>foo\<newline>baz'']
   \<and> fatals (snd (StringContains_sw (example_runtime direct_stack) capture ''foo'' ''bar'' [])) =
     [deleteSelf @ ''ensure_test.go:168: expected substring "bar" was not found in "foo"'']\<close>
  using StringContains_dispatch [of example_Sdump capture "''foo\<newline>baz''" "''bar''" "[]"
      "example_runtime direct_stack" "''ensure_test.go:168: ''"]
    StringContains_dispatch [of example_Sdump capture "''foo''" "''bar''" "[]"
      "example_runtime direct_stack" "''ensure_test.go:168: ''"]
    direct_location not_substring_example
  by (simp add: capture_def extras_text_def)

text \<open>
  The claim as it stands fails on \<open>ensure.go\<close>: for the string \<open>foo\<close>, a line feed,
  \<open>baz\<close> and the substring \<open>bar\<close>, its \<open>StringContains\<close> reports in the single-line
  form, though the string holds a line feed.
\<close>

theorem StringContains_sw_line_break_counterexample:
  \<open>CHR ''\<newline>'' \<in> set ''foo\<newline>baz''
   \<and> fatals (snd (StringContains_sw (example_runtime direct_stack) capture ''foo\<newline>baz''
        ''bar'' [])) =
     [deleteSelf @ ''ensure_test.go:168: expected substring "bar" was not found in "foo\<newline>baz"'']
   \<and> \<not> strings_Contains
        (hd (fatals (snd (StringContains_sw (example_runtime direct_stack) capture
           ''foo\<newline>baz'' ''bar'' []))))
        ''expected substring was not found:''\<close>
proof -
  have \<open>fatals (snd (StringContains_sw (example_runtime direct_stack) capture ''foo\<newline>baz''
        ''bar'' [])) =
     [deleteSelf @ ''ensure_test.go:168: expected substring "bar" was not found in "foo\<newline>baz"'']\<close>
    using StringContains_sw_fatals [OF direct_location, of capture "''foo\<newline>baz''" "''bar''" "[]"]
      not_substring_example
    by (simp add: capture_def extras_text_def example_runtime_def)
  moreover have \<open>\<not> strings_Contains
      (deleteSelf @ ''ensure_test.go:168: expected substring "bar" was not found in "foo\<newline>baz"'')
      ''expected substring was not found:''\<close>
    by code_simp
  ultimately show ?thesis by simp
qed

section \<open>The nil assertions\<close>

lemma Nil_ensure_fatals:
  assumes "v \<noteq> GNil" "tsdump Sdump [v] \<noteq> []"
  shows "fatals (snd (Nil_ensure Sdump t v a)) =
     fatals t @
     [(case error_text v of
         Some e \<Rightarrow> ''unexpected error: '' @ e
       | None \<Rightarrow>
           ''expected nil value but got:''
           @ (if CHR ''\<newline>'' \<in> set (tsdump Sdump [v]) then ''\<newline>'' else '' '')
           @ tsdump Sdump [v])
      @ extras_text Sdump a]"
  using assms tsdump_line_break [OF assms(2)]
  by (simp add: Nil_ensure_def Let_def fatal_fatals String_text helper_Helper_fatals
      split: option.splits)

lemma Nil_sw_fatals:
  assumes "v \<noteq> GNil" "tsdump (spew_Sdump rt) [v] \<noteq> []"
    and "pstack (Stack_String rt) (stack_Callers rt 3) = Inr loc"
  shows "fatals (snd (Nil_sw rt t v a)) =
     fatals t @
     [deleteSelf @ loc
      @ (case error_text v of
           Some e \<Rightarrow> ''unexpected error: '' @ e
         | None \<Rightarrow>
             ''expected nil value but got:''
             @ (if CHR ''\<newline>'' \<in> set (tsdump (spew_Sdump rt) [v]) then ''\<newline>'' else '' '')
             @ tsdump (spew_Sdump rt) [v])
      @ extras_text (spew_Sdump rt) a]"
  using assms(1,2) tsdump_line_break [OF assms(2)]
  by (simp add: Nil_sw_def Let_def fatal_sw_Fatal [OF assms(3)] Fatal_fatals
      split: option.splits)

lemma NotNil_present:
  "v \<noteq> GNil \<Longrightarrow> NotNil Sdump t v a = (Returned, helper_Helper t)"
  "v \<noteq> GNil \<Longrightarrow> NotNil_sw rt t v a = (Returned, t)"
  by (simp_all add: NotNil_def NotNil_sw_def)

text \<open>
  C6. For a value \<open>v\<close> that is not nil, \<open>Nil\<close> hands the sink exactly one message. When \<open>v\<close>
  is an error the message is \<open>unexpected error:\<close> and the text of the error, never the
  generic one. Otherwise it is \<open>expected nil value but got:\<close> and the trimmed dump of
  \<open>v\<close>, with a line feed between them when the dump holds a line feed and a single space
  when it does not. The extra values follow. The printer is taken to print something
  for \<open>v\<close>: \<open>Nil\<close> slices the last byte off the trimmed dump before it looks at \<open>v\<close>. The
  variant that resolves the location puts the backspaces and the location in front.
\<close>

theorem Nil_reports:
  assumes "v \<noteq> GNil"
  shows
    "(tsdump Sdump [v] \<noteq> [] \<longrightarrow>
        fatals (snd (Nil_ensure Sdump t v a)) =
          fatals t @
          [(case error_text v of
              Some e \<Rightarrow> ''unexpected error: '' @ e
            | None \<Rightarrow>
                ''expected nil value but got:''
                @ (if CHR ''\<newline>'' \<in> set (tsdump Sdump [v]) then ''\<newline>'' else '' '')
                @ tsdump Sdump [v])
           @ extras_text Sdump a])
     \<and> (tsdump (spew_Sdump rt) [v] \<noteq> []
          \<and> pstack (Stack_String rt) (stack_Callers rt 3) = Inr loc \<longrightarrow>
        fatals (snd (Nil_sw rt t v a)) =
          fatals t @
          [deleteSelf @ loc
           @ (case error_text v of
                Some e \<Rightarrow> ''unexpected error: '' @ e
              | None \<Rightarrow>
                  ''expected nil value but got:''
                  @ (if CHR ''\<newline>'' \<in> set (tsdump (spew_Sdump rt) [v])
                     then ''\<newline>'' else '' '')
                  @ tsdump (spew_Sdump rt) [v])
           @ extras_text (spew_Sdump rt) a])"
  using assms Nil_ensure_fatals Nil_sw_fatals by blast

lemma example_tsdump:
  \<open>tsdump example_Sdump [GString ''foo''] = ''(string) (len=3) "foo"''\<close>
  "tsdump example_Sdump [GSlice ''[]int'' 1 [GInt 1]] = ''([]int) (len=1 cap=1) {\<newline> (int) 1\<newline>}''"
  "tsdump example_Sdump [GError ''foo''] = ''(*errors.errorString)(foo)''"
  "tsdump example_Sdump [GNilPtr ''*ensure.typ'' None] = ''(*ensure.typ)(<nil>)''"
  by (simp_all add: tsdump_def example_Sdump_def strings_TrimSpace_def unicode_spaces_def
      TrimLeft.simps strconv_Itoa_def digits.simps)

theorem Nil_reports_witness:
  \<open>fatals (snd (Nil_ensure example_Sdump capture (GString ''foo'') [])) =
     [''expected nil value but got: (string) (len=3) "foo"'']
   \<and> fatals (snd (Nil_ensure example_Sdump capture (GSlice ''[]int'' 1 [GInt 1]) [])) =
     [''expected nil value but got:\<newline>([]int) (len=1 cap=1) {\<newline> (int) 1\<newline>}'']
   \<and> fatals (snd (Nil_ensure example_Sdump capture (GError ''foo'') [])) =
     [''unexpected error: foo'']
   \<and> fatals (snd (Nil_sw (example_runtime direct_stack) capture (GError ''foo'') [])) =
     [deleteSelf @ ''ensure_test.go:168: unexpected error: foo'']\<close>
  using Nil_reports [of "GString ''foo''" example_Sdump capture "[]"
      "example_runtime direct_stack" "''ensure_test.go:168: ''"]
    Nil_reports [of "GSlice ''[]int'' 1 [GInt 1]" example_Sdump capture "[]"
      "example_runtime direct_stack" "''ensure_test.go:168: ''"]
    Nil_reports [of "GError ''foo''" example_Sdump capture "[]"
      "example_runtime direct_stack" "''ensure_test.go:168: ''"]
    direct_location example_tsdump
  by (simp add: capture_def extras_text_def example_runtime_def)

text \<open>
  C10. An interface value that holds a nil pointer of some pointer type is not the nil
  interface: for every such value \<open>Nil\<close> hands the sink a message (the one C6 gives for
  the value, the printer printing something for it) and \<open>NotNil\<close> hands it nothing, in
  both variants. Both compare the interface value with nil and never look through the
  pointer.
\<close>

theorem typed_nil_pointer_is_present:
  "(tsdump Sdump [GNilPtr ty e] \<noteq> [] \<longrightarrow>
      fatals (snd (Nil_ensure Sdump t (GNilPtr ty e) a)) =
        fatals t @
        [(case e of
            Some txt \<Rightarrow> ''unexpected error: '' @ txt
          | None \<Rightarrow>
              ''expected nil value but got:''
              @ (if CHR ''\<newline>'' \<in> set (tsdump Sdump [GNilPtr ty e]) then ''\<newline>'' else '' '')
              @ tsdump Sdump [GNilPtr ty e])
         @ extras_text Sdump a])
   \<and> fatals (snd (NotNil Sdump t (GNilPtr ty e) a)) = fatals t
   \<and> fst (NotNil Sdump t (GNilPtr ty e) a) = Returned
   \<and> (tsdump (spew_Sdump rt) [GNilPtr ty e] \<noteq> []
        \<and> pstack (Stack_String rt) (stack_Callers rt 3) = Inr loc \<longrightarrow>
      length (fatals (snd (Nil_sw rt t (GNilPtr ty e) a))) = Suc (length (fatals t)))
   \<and> NotNil_sw rt t (GNilPtr ty e) a = (Returned, t)"
proof (intro conjI impI)
  assume "tsdump Sdump [GNilPtr ty e] \<noteq> []"
  then show "fatals (snd (Nil_ensure Sdump t (GNilPtr ty e) a)) =
        fatals t @
        [(case e of
            Some txt \<Rightarrow> ''unexpected error: '' @ txt
          | None \<Rightarrow>
              ''expected nil value but got:''
              @ (if CHR ''\<newline>'' \<in> set (tsdump Sdump [GNilPtr ty e]) then ''\<newline>'' else '' '')
              @ tsdump Sdump [GNilPtr ty e])
         @ extras_text Sdump a]"
    using Nil_ensure_fatals [of "GNilPtr ty e" Sdump t a] by simp
next
  assume "tsdump (spew_Sdump rt) [GNilPtr ty e] \<noteq> []
        \<and> pstack (Stack_String rt) (stack_Callers rt 3) = Inr loc"
  then show "length (fatals (snd (Nil_sw rt t (GNilPtr ty e) a))) = Suc (length (fatals t))"
    using Nil_sw_fatals [of "GNilPtr ty e" rt loc t a] by simp
qed (simp_all add: NotNil_present helper_Helper_fatals)

theorem typed_nil_pointer_is_present_witness:
  \<open>fatals (snd (Nil_ensure example_Sdump capture (GNilPtr ''*ensure.typ'' None) [])) =
     [''expected nil value but got: (*ensure.typ)(<nil>)'']
   \<and> fatals (snd (NotNil example_Sdump capture (GNilPtr ''*ensure.typ'' None) [])) = []
   \<and> length (fatals (snd (Nil_sw (example_runtime direct_stack) capture
        (GNilPtr ''*ensure.typ'' None) []))) = 1\<close>
  using typed_nil_pointer_is_present [of example_Sdump "''*ensure.typ''" None capture "[]"
      "example_runtime direct_stack" "''ensure_test.go:168: ''"]
    direct_location example_tsdump
  by (simp add: capture_def extras_text_def example_runtime_def)

section \<open>The panic assertion\<close>

text \<open>
  C8. \<open>PanicDeepEqual\<close> with a nil expected value panics with the fixed message
  \<open>can't pass nil to ensure.PanicDeepEqual\<close>, whatever the sink, the extra values and
  the recovered value are, and the sink receives no message.
\<close>

theorem PanicDeepEqual_nil_expected:
  "fst (PanicDeepEqual Sdump recovered t GNil a) =
     Panic (PanicValue ''can't pass nil to ensure.PanicDeepEqual'')
   \<and> fatals (snd (PanicDeepEqual Sdump recovered t GNil a)) = fatals t"
  by (simp add: PanicDeepEqual_def helper_Helper_fatals)

theorem PanicDeepEqual_nil_expected_witness:
  "PanicDeepEqual example_Sdump GNil capture GNil [] =
     (Panic (PanicValue ''can't pass nil to ensure.PanicDeepEqual''), capture)"
  using PanicDeepEqual_nil_expected [of example_Sdump GNil capture "[]"]
  by (simp add: prod_eq_iff PanicDeepEqual_def helper_Helper_def helper_def capture_def)

section \<open>The equality assertion\<close>

lemma DeepEqual_fatals:
  "fatals (snd (DeepEqual Sdump t actual expected a)) =
     fatals t @
     (if reflect_DeepEqual actual expected then []
      else [''expected these to be equal:\<newline>ACTUAL:\<newline>'' @ Sdump [actual]
            @ ''\<newline>EXPECTED:\<newline>'' @ tsdump Sdump [expected] @ extras_text Sdump a])"
  by (simp add: DeepEqual_def fatal_fatals String_text helper_Helper_fatals)

text \<open>
  C5, as amended. A value is deeply equal to itself exactly when it is not a NaN and not
  a function value, and is not an array or a struct that holds one of them in an
  element or a field, at any depth of arrays and structs. \<open>DeepEqual\<close> of such a value
  with itself hands the sink nothing, in both variants, and \<open>DeepEqual\<close> of any other
  value with itself reports. A slice is always deeply equal to itself, whatever it
  holds, and \<open>DeepEqual\<close> of a slice with itself hands the sink nothing.
\<close>

theorem DeepEqual_self:
  "(reflect_DeepEqual v v \<longleftrightarrow> comparable v)
   \<and> (fatals (snd (DeepEqual Sdump t v v a)) = fatals t \<longleftrightarrow> comparable v)
   \<and> (comparable v \<longrightarrow> DeepEqual_sw rt t v v a = (Returned, t))
   \<and> reflect_DeepEqual (GSlice ty p xs) (GSlice ty p xs)
   \<and> fatals (snd (DeepEqual Sdump t (GSlice ty p xs) (GSlice ty p xs) a)) = fatals t
   \<and> DeepEqual_sw rt t (GSlice ty p xs) (GSlice ty p xs) a = (Returned, t)"
  by (simp add: DeepEqual_fatals DeepEqual_sw_def DeepEqual_self_iff)

theorem DeepEqual_self_witness:
  "comparable (GStruct ''ensure.typ'' [GInt 42])
   \<and> reflect_DeepEqual (GStruct ''ensure.typ'' [GInt 42]) (GStruct ''ensure.typ'' [GInt 42])
   \<and> fatals (snd (DeepEqual example_Sdump capture (GStruct ''ensure.typ'' [GInt 42])
        (GStruct ''ensure.typ'' [GInt 42]) [])) = []
   \<and> DeepEqual_sw (example_runtime direct_stack) capture (GStruct ''ensure.typ'' [GInt 42])
        (GStruct ''ensure.typ'' [GInt 42]) [] = (Returned, capture)
   \<and> fatals (snd (DeepEqual example_Sdump capture (GSlice ''[]float64'' 1 [GFloat64 NaN])
        (GSlice ''[]float64'' 1 [GFloat64 NaN]) [])) = []"
proof -
  have c: "comparable (GStruct ''ensure.typ'' [GInt 42])" by simp
  from DeepEqual_self [of "GStruct ''ensure.typ'' [GInt 42]" example_Sdump capture "[]"
      "example_runtime direct_stack" "''[]float64''" 1 "[GFloat64 NaN]"] c
  show ?thesis
    by (simp add: capture_def)
qed

text \<open>
  The claim as it stands fails for a function value, for a NaN, and for a struct and an
  array that hold a NaN: none of them is deeply equal to itself, and \<open>DeepEqual\<close> of each
  with itself reports to the sink.
\<close>

theorem DeepEqual_self_counterexample:
  "\<not> reflect_DeepEqual (GFunc ''f'') (GFunc ''f'')
   \<and> length (fatals (snd (DeepEqual example_Sdump capture (GFunc ''f'') (GFunc ''f'') []))) = 1
   \<and> \<not> reflect_DeepEqual (GFloat64 NaN) (GFloat64 NaN)
   \<and> length (fatals (snd (DeepEqual example_Sdump capture (GFloat64 NaN) (GFloat64 NaN) []))) = 1
   \<and> \<not> reflect_DeepEqual (GStruct ''struct { F float64 }'' [GFloat64 NaN])
        (GStruct ''struct { F float64 }'' [GFloat64 NaN])
   \<and> length (fatals (snd (DeepEqual example_Sdump capture
        (GStruct ''struct { F float64 }'' [GFloat64 NaN])
        (GStruct ''struct { F float64 }'' [GFloat64 NaN]) []))) = 1
   \<and> \<not> reflect_DeepEqual (GArray ''[1]float64'' [GFloat64 NaN])
        (GArray ''[1]float64'' [GFloat64 NaN])
   \<and> length (fatals (snd (DeepEqual example_Sdump capture
        (GArray ''[1]float64'' [GFloat64 NaN]) (GArray ''[1]float64'' [GFloat64 NaN]) []))) = 1"
  by (simp add: DeepEqual_fatals capture_def)

section \<open>The remaining assertions with a single check\<close>

text \<open>
  Each of them hands the sink one message when its check fails and none when it holds.
\<close>

lemma single_check_fatals:
  "fatals (snd (NotDeepEqual Sdump t actual expected a)) =
     fatals t @
     (if reflect_DeepEqual actual expected
      then [''expected two different values, but got the same:\<newline>'' @ tsdump Sdump [actual]
            @ extras_text Sdump a]
      else [])"
  "fatals (snd (NotNil Sdump t v a)) =
     fatals t @ (if v = GNil then [''expected a value but got nil'' @ extras_text Sdump a] else [])"
  "fatals (snd (True_ensure Sdump t b a)) =
     fatals t @ (if b then [] else [''expected true but got false'' @ extras_text Sdump a])"
  "fatals (snd (False_ensure Sdump t b a)) =
     fatals t @ (if b then [''expected false but got true'' @ extras_text Sdump a] else [])"
  by (simp_all add: NotDeepEqual_def NotNil_def True_ensure_def False_ensure_def
      fatal_fatals String_text helper_Helper_fatals)

lemma StringDoesNotContain_fatals:
  \<open>fatals (snd (StringDoesNotContain Sdump t s substr a)) =
     fatals t @
     (if (\<exists>p q. s = p @ substr @ q)
      then [''substring "'' @ substr @ ''" was not supposed to be found in "'' @ s @ ''"''
            @ extras_text Sdump a]
      else [])\<close>
  by (simp add: StringDoesNotContain_def fatal_fatals String_text helper_Helper_fatals
      flip: strings_Contains_iff)

lemma PanicDeepEqual_fatals:
  assumes "expected \<noteq> GNil"
  shows "fatals (snd (PanicDeepEqual Sdump recovered t expected a)) =
     fatals t @
     (if reflect_DeepEqual recovered expected then []
      else [''expected these to be equal:\<newline>ACTUAL:\<newline>'' @ Sdump [recovered]
            @ ''\<newline>EXPECTED:\<newline>'' @ tsdump Sdump [expected] @ extras_text Sdump a])"
  using assms
  by (simp add: PanicDeepEqual_def fatal_fatals String_text helper_Helper_fatals)

lemma Nil_ensure_nil:
  assumes "tsdump Sdump [GNil] \<noteq> []"
  shows "Nil_ensure Sdump t GNil a = (Returned, helper_Helper t)"
  using assms by (simp add: Nil_ensure_def Let_def)

section \<open>The location of a failure\<close>

lemma pstack_loop_result:
  "pstack_loop snew s =
     (if \<exists>f\<in>set s. isTestFrame f
      then Some (snew @ takeWhile (\<lambda>f. \<not> isTestFrame f) s
                 @ take 1 (dropWhile (\<lambda>f. \<not> isTestFrame f) s))
      else None)"
  by (induction s arbitrary: snew) (auto simp: Let_def)

lemma no_test_frame:
  assumes "\<forall>f\<in>set s. \<not> isTestFrame f"
  shows "takeWhile (\<lambda>f. \<not> isTestFrame f) s @ take 1 (dropWhile (\<lambda>f. \<not> isTestFrame f) s) = s"
  using assms by (induction s) auto

lemma pstack_result:
  assumes "s \<noteq> []"
  shows "pstack render s =
     Inr (if isTestFrame (hd s)
          then filepath_Base (File (hd s)) @ '':'' @ strconv_Itoa (Line (hd s)) @ '': ''
          else ''        ''
               @ render (takeWhile (\<lambda>f. \<not> isTestFrame f) s
                         @ take 1 (dropWhile (\<lambda>f. \<not> isTestFrame f) s))
               @ ''\<newline>'')"
proof (cases s)
  case Nil
  with assms show ?thesis by simp
next
  case (Cons first rest)
  show ?thesis
  proof (cases "\<exists>f\<in>set s. isTestFrame f")
    case True
    then show ?thesis
      unfolding pstack_def pstack_loop_result by (auto simp: Cons)
  next
    case False
    then have "\<forall>f\<in>set s. \<not> isTestFrame f" by simp
    from no_test_frame [OF this] False show ?thesis
      unfolding pstack_def pstack_loop_result by (auto simp: Cons)
  qed
qed

text \<open>
  C9. For a captured stack that is not empty, \<open>pstack\<close> returns the base name of the
  file of the first frame, a colon, its line, a colon and a space when the name of the
  function of that frame begins with \<open>Test\<close>. Otherwise it returns eight spaces, the
  frames from the first one up to and including the first one whose function name
  begins with \<open>Test\<close>, as the stack prints them, and a line feed; when no frame has such
  a name these frames are the entire stack. The result is never empty.
\<close>

theorem pstack_location:
  assumes "s \<noteq> []"
  shows
    "(prefix ''Test'' (Name (hd s)) \<longrightarrow>
        pstack render s =
          Inr (filepath_Base (File (hd s)) @ '':'' @ strconv_Itoa (Line (hd s)) @ '': ''))
     \<and> (\<not> prefix ''Test'' (Name (hd s)) \<longrightarrow>
        pstack render s =
          Inr (''        ''
               @ render (takeWhile (\<lambda>f. \<not> prefix ''Test'' (Name f)) s
                         @ take 1 (dropWhile (\<lambda>f. \<not> prefix ''Test'' (Name f)) s))
               @ ''\<newline>''))
     \<and> ((\<forall>f\<in>set s. \<not> prefix ''Test'' (Name f)) \<longrightarrow>
        pstack render s = Inr (''        '' @ render s @ ''\<newline>''))
     \<and> (\<exists>location. pstack render s = Inr location \<and> location \<noteq> [])"
proof -
  have test: "isTestFrame = (\<lambda>f. prefix ''Test'' (Name f))"
    by (simp add: fun_eq_iff isTestFrame_def strings_HasPrefix_def)
  have hd: "hd s \<in> set s" using assms by simp
  have all: "(\<forall>f\<in>set s. \<not> prefix ''Test'' (Name f)) \<longrightarrow>
      pstack render s = Inr (''        '' @ render s @ ''\<newline>'')"
    using pstack_result [OF assms, of render] no_test_frame [of s] hd
    by (auto simp: test)
  show ?thesis
    using pstack_result [OF assms, of render] all
    by (auto simp: test)
qed

theorem pstack_location_witness:
  "pstack example_Stack_String (drop 3 direct_stack) = Inr ''ensure_test.go:168: ''
   \<and> pstack example_Stack_String (drop 3 indirect_stack) =
       Inr (''        github.com/facebookgo/ensure/ensure_test.go:188 indirect\<newline>''
            @ ''github.com/facebookgo/ensure/ensure_test.go:195 TestIndirectStackTrace\<newline>'')
   \<and> pstack example_Stack_String (drop 4 direct_stack) =
       Inr (''        testing/testing.go:447 tRunner\<newline>runtime/asm_amd64.s:2232 goexit\<newline>'')"
proof -
  have d: "drop 3 direct_stack \<noteq> []" "drop 3 indirect_stack \<noteq> []" "drop 4 direct_stack \<noteq> []"
    by (simp_all add: direct_stack_def indirect_stack_def)
  show ?thesis
    using pstack_location [OF d(1), of example_Stack_String]
      pstack_location [OF d(2), of example_Stack_String]
      pstack_location [OF d(3), of example_Stack_String]
    by (simp add: direct_stack_def indirect_stack_def example_Stack_String_def
        filepath_Base_def strconv_Itoa_def digits.simps)
qed

section \<open>The comparison of two slices as multisets\<close>

text \<open>
  The inner loop finds an index exactly when some unused index holds a deeply equal
  element, and marking an index as used takes its element out of the multiset of the
  elements at the unused indices.
\<close>

lemma inner_Some:
  "SameElements_inner a bs used i = Some j \<Longrightarrow>
     i \<le> j \<and> j < i + length bs \<and> \<not> used_at used j \<and> reflect_DeepEqual a (bs ! (j - i))"
proof (induction bs arbitrary: i)
  case Nil
  then show ?case by simp
next
  case (Cons b bs)
  show ?case
  proof (cases "\<not> used_at used i \<and> reflect_DeepEqual a b")
    case True
    with Cons.prems show ?thesis by auto
  next
    case False
    with Cons.prems have "SameElements_inner a bs used (Suc i) = Some j" by auto
    from Cons.IH [OF this] show ?thesis by (auto simp: Suc_diff_le)
  qed
qed

lemma inner_None:
  "SameElements_inner a bs used i = None \<longleftrightarrow>
     (\<forall>k<length bs. used_at used (i + k) \<or> \<not> reflect_DeepEqual a (bs ! k))"
proof (induction bs arbitrary: i)
  case Nil
  then show ?case by simp
next
  case (Cons b bs)
  show ?case
    by (auto simp: Cons.IH less_Suc_eq_0_disj)
qed

text \<open>
  Whatever deeply equal element the search settles on, the expected elements that are
  left can still be paired: the partner that was meant for the expected element takes
  the place of the element the search took.
\<close>

lemma pairing_exchange:
  assumes pair: "list_all2 reflect_DeepEqual (e # rest) (y # ys)"
    and sub: "mset (y # ys) \<subseteq># M"
    and ex: "reflect_DeepEqual e x" and xM: "x \<in># M"
  shows "\<exists>zs. list_all2 reflect_DeepEqual rest zs \<and> mset zs \<subseteq># M - {#x#}"
proof (cases "x \<in> set ys")
  case False
  then have zero: "count (mset ys) x = 0"
    by (metis count_eq_zero_iff set_mset_mset)
  have le: "mset ys \<subseteq># M"
    using sub by (metis mset.simps(2) mset_subset_eq_insertD subset_mset.less_imp_le)
  have "mset ys \<subseteq># M - {#x#}"
  proof (rule mset_subset_eqI)
    fix a
    show "count (mset ys) a \<le> count (M - {#x#}) a"
    proof (cases "a = x")
      case True
      with zero show ?thesis by (simp only:)
    next
      case False
      with mset_subset_eq_count [OF le, of a] show ?thesis by simp
    qed
  qed
  with pair show ?thesis by auto
next
  case True
  then obtain p q where ys: "ys = p @ x # q"
    by (auto simp: in_set_conv_decomp)
  from pair have ey: "reflect_DeepEqual e y" and all: "list_all2 reflect_DeepEqual rest ys"
    by auto
  from all ys obtain rp e' rq where rest: "rest = rp @ e' # rq"
    and p: "list_all2 reflect_DeepEqual rp p" and e'x: "reflect_DeepEqual e' x"
    and q: "list_all2 reflect_DeepEqual rq q"
    by (auto simp: list_all2_append2 list_all2_Cons2)
  have "reflect_DeepEqual e' y"
    using e'x ex ey DeepEqual_sym(1) DeepEqual_trans(1) by blast
  with p q rest have "list_all2 reflect_DeepEqual rest (p @ y # q)"
    by (auto intro: list_all2_appendI)
  moreover have "mset (p @ y # q) \<subseteq># M - {#x#}"
    using sub ys by (simp add: add_mset_commute insert_subset_eq_iff)
  ultimately show ?thesis by blast
qed


lemma used_at_update: "used_at (used(i \<mapsto> True)) j = (j = i \<or> used_at used j)"
  by (simp add: used_at_def)

lemma filter_drop_index:
  assumes "distinct xs" "i \<in> set xs" "Q i"
  shows "mset (map f (filter (\<lambda>j. j \<noteq> i \<and> Q j) xs)) = mset (map f (filter Q xs)) - {# f i #}"
  using assms
proof (induction xs)
  case Nil
  then show ?case by simp
next
  case (Cons x xs)
  show ?case
  proof (cases "x = i")
    case True
    with Cons.prems have "i \<notin> set xs" by simp
    then have "filter (\<lambda>j. j \<noteq> i \<and> Q j) xs = filter Q xs"
      by (intro filter_cong) auto
    with True Cons.prems show ?thesis by simp
  next
    case False
    with Cons.prems have i: "i \<in> set xs" and d: "distinct xs" by auto
    have mem: "f i \<in># mset (map f (filter Q xs))"
      using i Cons.prems(3) by auto
    from Cons.IH [OF d i Cons.prems(3)] False mem show ?thesis
      by (cases "Q x") auto
  qed
qed

lemma unused_update:
  assumes "i < length as" "\<not> used_at used i"
  shows "mset (map ((!) as) (filter (\<lambda>j. \<not> used_at (used(i \<mapsto> True)) j) [0..<length as])) =
     mset (map ((!) as) (filter (\<lambda>j. \<not> used_at used j) [0..<length as])) - {# as ! i #}"
proof -
  have "(\<lambda>j. \<not> used_at (used(i \<mapsto> True)) j) = (\<lambda>j. j \<noteq> i \<and> \<not> used_at used j)"
    by (auto simp: used_at_update)
  then show ?thesis
    using assms filter_drop_index [of "[0..<length as]" i "\<lambda>j. \<not> used_at used j" "(!) as"]
    by simp
qed

lemma inner_finds:
  assumes "y \<in># mset (map ((!) as) (filter (\<lambda>j. \<not> used_at used j) [0..<length as]))"
    and "reflect_DeepEqual e y"
  obtains i where "SameElements_inner e as used 0 = Some i" "i < length as"
    "\<not> used_at used i" "reflect_DeepEqual e (as ! i)"
proof -
  from assms(1) obtain j where j: "j < length as" "\<not> used_at used j" "as ! j = y"
    by auto
  with assms(2) have "SameElements_inner e as used 0 \<noteq> None"
    by (auto simp: inner_None)
  then obtain i where i: "SameElements_inner e as used 0 = Some i" by auto
  from inner_Some [OF this] have "i < length as" "\<not> used_at used i"
    "reflect_DeepEqual e (as ! i)"
    by auto
  with i that show thesis by blast
qed

lemma step_keeps_pairing:
  assumes "list_all2 reflect_DeepEqual (e # rest) ys"
    and "mset ys \<subseteq># mset (map ((!) as) (filter (\<lambda>j. \<not> used_at used j) [0..<length as]))"
  obtains i zs where "SameElements_inner e as used 0 = Some i"
    and "list_all2 reflect_DeepEqual rest zs"
    and "mset zs \<subseteq>#
      mset (map ((!) as) (filter (\<lambda>j. \<not> used_at (used(i \<mapsto> True)) j) [0..<length as]))"
proof -
  from assms(1) obtain y ys' where ys: "ys = y # ys'" and ey: "reflect_DeepEqual e y"
    by (auto simp: list_all2_Cons1)
  have "y \<in># mset (map ((!) as) (filter (\<lambda>j. \<not> used_at used j) [0..<length as]))"
    using assms(2) ys by (simp add: insert_subset_eq_iff)
  from this ey obtain i where i: "SameElements_inner e as used 0 = Some i" "i < length as"
    "\<not> used_at used i" "reflect_DeepEqual e (as ! i)"
    by (rule inner_finds)
  have "as ! i \<in># mset (map ((!) as) (filter (\<lambda>j. \<not> used_at used j) [0..<length as]))"
    using i(2,3) by auto
  from pairing_exchange [OF assms(1) [unfolded ys] assms(2) [unfolded ys] i(4) this]
  obtain zs where zs: "list_all2 reflect_DeepEqual rest zs"
    and "mset zs \<subseteq>#
      mset (map ((!) as) (filter (\<lambda>j. \<not> used_at used j) [0..<length as])) - {# as ! i #}"
    by blast
  then have "mset zs \<subseteq>#
      mset (map ((!) as) (filter (\<lambda>j. \<not> used_at (used(i \<mapsto> True)) j) [0..<length as]))"
    by (simp only: unused_update [OF i(2,3)])
  with i(1) zs show thesis by (rule that)
qed

lemma outer_matches:
  assumes "list_all2 reflect_DeepEqual rest ys"
    and "mset ys \<subseteq># mset (map ((!) as) (filter (\<lambda>j. \<not> used_at used j) [0..<length as]))"
  shows "SameElements_outer Sdump actual expected extra as rest used t = (Returned, t)"
    and "SameElements_outer_sw rt actual expected extra as rest used t = (Returned, t)"
  using assms
proof (induction rest arbitrary: used ys)
  case Nil
  {
    case 1
    show ?case by simp
  next
    case 2
    show ?case by simp
  }
next
  case (Cons e rest)
  {
    case 1
    then obtain i zs where i: "SameElements_inner e as used 0 = Some i"
      and zs: "list_all2 reflect_DeepEqual rest zs"
        "mset zs \<subseteq>#
          mset (map ((!) as) (filter (\<lambda>j. \<not> used_at (used(i \<mapsto> True)) j) [0..<length as]))"
      by (rule step_keeps_pairing)
    from zs have
      "SameElements_outer Sdump actual expected extra as rest (used(i \<mapsto> True)) t = (Returned, t)"
      by (rule Cons.IH(1))
    with i show ?case by simp
  next
    case 2
    then obtain i zs where i: "SameElements_inner e as used 0 = Some i"
      and zs: "list_all2 reflect_DeepEqual rest zs"
        "mset zs \<subseteq>#
          mset (map ((!) as) (filter (\<lambda>j. \<not> used_at (used(i \<mapsto> True)) j) [0..<length as]))"
      by (rule step_keeps_pairing)
    from zs have
      "SameElements_outer_sw rt actual expected extra as rest (used(i \<mapsto> True)) t = (Returned, t)"
      by (rule Cons.IH(2))
    with i show ?case by simp
  }
qed

lemma unused_empty:
  "mset (map ((!) as) (filter (\<lambda>j. \<not> used_at Map.empty j) [0..<length as])) = mset as"
  by (simp add: used_at_def map_nth)

text \<open>
  C2. When the expected elements can be paired one to one with the actual elements,
  each expected element deeply equal to its partner (\<open>ys\<close> is the actual elements in the
  order of their partners), \<open>SameElements\<close> returns and hands the sink nothing: the
  search for the first unused deeply equal index succeeds for every expected element.
  This holds in both variants and for every value \<open>toInterfaceSlice\<close> accepts.
\<close>

theorem SameElements_permutation:
  assumes "toInterfaceSlice actual = Inr actualSlice"
    and "toInterfaceSlice expected = Inr expectedSlice"
    and "mset ys = mset actualSlice"
    and "list_all2 reflect_DeepEqual expectedSlice ys"
  shows "SameElements Sdump t actual expected extra = (Returned, helper_Helper t)
    \<and> fatals (snd (SameElements Sdump t actual expected extra)) = fatals t
    \<and> SameElements_sw rt t actual expected extra = (Returned, t)"
proof -
  have len: "length actualSlice = length expectedSlice"
    using assms(3,4) by (metis list_all2_lengthD size_mset)
  have sub: "mset ys \<subseteq>#
      mset (map ((!) actualSlice) (filter (\<lambda>j. \<not> used_at Map.empty j) [0..<length actualSlice]))"
    unfolding unused_empty using assms(3) by simp
  have new: "SameElements Sdump t actual expected extra = (Returned, helper_Helper t)"
    using outer_matches(1) [OF assms(4) sub] len assms(1,2)
    by (simp add: SameElements_def)
  have old: "SameElements_sw rt t actual expected extra = (Returned, t)"
    using outer_matches(2) [OF assms(4) sub] len assms(1,2)
    by (simp add: SameElements_sw_def)
  show ?thesis
    using new old by (simp add: helper_Helper_fatals)
qed

theorem SameElements_permutation_witness:
  "SameElements example_Sdump capture (GSlice ''[]int'' 1 [GInt 1, GInt 2, GInt 1])
     (GSlice ''[]interface {}'' 2 [GInt 2, GInt 1, GInt 1]) [] = (Returned, capture)
   \<and> SameElements_sw (example_runtime direct_stack) capture
       (GSlice ''[]int'' 1 [GInt 1, GInt 2, GInt 1])
       (GSlice ''[]interface {}'' 2 [GInt 2, GInt 1, GInt 1]) [] = (Returned, capture)"
proof -
  have a: "toInterfaceSlice (GSlice ''[]int'' 1 [GInt 1, GInt 2, GInt 1]) =
      Inr [GInt 1, GInt 2, GInt 1]"
    and e: "toInterfaceSlice (GSlice ''[]interface {}'' 2 [GInt 2, GInt 1, GInt 1]) =
      Inr [GInt 2, GInt 1, GInt 1]"
    and m: "mset [GInt 2, GInt 1, GInt 1] = mset [GInt 1, GInt 2, GInt 1]"
    and p: "list_all2 reflect_DeepEqual [GInt 2, GInt 1, GInt 1] [GInt 2, GInt 1, GInt 1]"
    by simp_all
  from SameElements_permutation [OF a e m p, of example_Sdump capture "[]"
      "example_runtime direct_stack"]
  show ?thesis
    by (simp add: helper_Helper_def helper_def capture_def)
qed

text \<open>
  With a sink whose \<open>Fatal\<close> does not hand control back, \<open>SameElements\<close> hands it at
  most one message.
\<close>

lemma fatal_stops:
  assumes "\<not> returns (Fataler c)"
  shows "fst (fatal Sdump c) = Goexit"
  using assms by (simp add: fatal_def Fatal_fst helper_Helper_returns)

lemma outer_one_report:
  assumes "\<not> returns t"
  shows "length (fatals (snd (SameElements_outer Sdump actual expected extra as rest used t)))
     \<le> Suc (length (fatals t))"
  using assms
proof (induction rest arbitrary: used)
  case Nil
  then show ?case by simp
next
  case (Cons e rest)
  show ?case
  proof (cases "SameElements_inner e as used 0")
    case None
    obtain st t' where f: "fatal Sdump \<lparr>Fataler = t,
        Format = ''missing expected element:\<newline>ACTUAL:\<newline>%s\<newline>EXPECTED:\<newline>%s\<newline>MISSING ELEMENT\<newline>%s'',
        FormatArgs = [tsdump Sdump [actual], tsdump Sdump [expected], tsdump Sdump [e]],
        Extra = extra\<rparr> = (st, t')"
      by (cases "fatal Sdump \<lparr>Fataler = t,
        Format = ''missing expected element:\<newline>ACTUAL:\<newline>%s\<newline>EXPECTED:\<newline>%s\<newline>MISSING ELEMENT\<newline>%s'',
        FormatArgs = [tsdump Sdump [actual], tsdump Sdump [expected], tsdump Sdump [e]],
        Extra = extra\<rparr>") auto
    from f fatal_stops [of _ Sdump] Cons.prems have st: "st = Goexit"
      by (metis cond.select_convs(1) fst_conv)
    from f have "fatals t' = fatals t @ [String Sdump \<lparr>Fataler = t,
        Format = ''missing expected element:\<newline>ACTUAL:\<newline>%s\<newline>EXPECTED:\<newline>%s\<newline>MISSING ELEMENT\<newline>%s'',
        FormatArgs = [tsdump Sdump [actual], tsdump Sdump [expected], tsdump Sdump [e]],
        Extra = extra\<rparr>]"
      using fatal_fatals [of Sdump] by (metis cond.select_convs(1) snd_conv)
    with None f st show ?thesis by simp
  next
    case (Some i)
    then have "SameElements_outer Sdump actual expected extra as (e # rest) used t =
        SameElements_outer Sdump actual expected extra as rest (used(i \<mapsto> True)) t"
      by simp
    then show ?thesis
      using Cons.IH [OF Cons.prems, of "used(i \<mapsto> True)"] by (simp only:)
  qed
qed

lemma SameElements_one_report:
  assumes "\<not> returns t"
  shows "length (fatals (snd (SameElements Sdump t actual expected extra)))
     \<le> Suc (length (fatals t))"
proof (cases "toInterfaceSlice actual")
  case (Inl p)
  then show ?thesis by (simp add: SameElements_def helper_Helper_fatals)
next
  case a: (Inr actualSlice)
  show ?thesis
  proof (cases "toInterfaceSlice expected")
    case (Inl p)
    with a show ?thesis by (simp add: SameElements_def helper_Helper_fatals)
  next
    case e: (Inr expectedSlice)
    show ?thesis
    proof (cases "length actualSlice \<noteq> length expectedSlice")
      case True
      with a e assms show ?thesis
        by (simp add: SameElements_def fatal_def Fatal_def helper_Helper_returns
            helper_Helper_fatals Let_def)
    next
      case False
      have "\<not> returns (helper_Helper t)"
        using assms by (simp add: helper_Helper_returns)
      from outer_one_report [OF this] a e False show ?thesis
        by (simp add: SameElements_def helper_Helper_fatals)
    qed
  qed
qed

text \<open>
  C1 asks for exactly one message per failing call, and for \<open>SameElements\<close> to stop
  after the report of different lengths even when the sink hands control back. The
  code does not stop: for the slices 1, 2 and 3 and the capture sink of the tests,
  \<open>SameElements\<close> reports the different lengths and then goes on to match the elements,
  so the sink receives a second message, for the expected element 3, in both
  variants.
\<close>

theorem SameElements_length_mismatch_goes_on:
  "fatals (snd (SameElements example_Sdump capture (GSlice ''[]int'' 1 [GInt 1, GInt 2])
      (GSlice ''[]interface {}'' 2 [GInt 3]) [])) =
     [''expected same elements but found slices of different lengths:\<newline>ACTUAL:\<newline>([]int) (len=2 cap=2) {\<newline> (int) 1,\<newline> (int) 2\<newline>}\<newline>EXPECTED\<newline>([]interface {}) (len=1 cap=1) {\<newline> (int) 3\<newline>}'',
      ''missing expected element:\<newline>ACTUAL:\<newline>([]int) (len=2 cap=2) {\<newline> (int) 1,\<newline> (int) 2\<newline>}\<newline>EXPECTED:\<newline>([]interface {}) (len=1 cap=1) {\<newline> (int) 3\<newline>}\<newline>MISSING ELEMENT\<newline>(int) 3'']
   \<and> length (fatals (snd (SameElements_sw (example_runtime direct_stack) capture
        (GSlice ''[]int'' 1 [GInt 1, GInt 2]) (GSlice ''[]interface {}'' 2 [GInt 3]) []))) = 2"
  by code_simp

text \<open>
  C7 asks for the report of the first expected element that has no partner, and for
  no expected element to be checked after it. The first message is that report, but
  the code goes on when the sink hands control back: for the slices 1, 2 and 3, 4 and
  the capture sink of the tests, \<open>SameElements\<close> reports 3 and then reports 4 as well,
  in both variants.
\<close>

theorem SameElements_missing_element_goes_on:
  "fatals (snd (SameElements example_Sdump capture (GSlice ''[]int'' 1 [GInt 1, GInt 2])
      (GSlice ''[]interface {}'' 2 [GInt 3, GInt 4]) [])) =
     [''missing expected element:\<newline>ACTUAL:\<newline>([]int) (len=2 cap=2) {\<newline> (int) 1,\<newline> (int) 2\<newline>}\<newline>EXPECTED:\<newline>([]interface {}) (len=2 cap=2) {\<newline> (int) 3,\<newline> (int) 4\<newline>}\<newline>MISSING ELEMENT\<newline>(int) 3'',
      ''missing expected element:\<newline>ACTUAL:\<newline>([]int) (len=2 cap=2) {\<newline> (int) 1,\<newline> (int) 2\<newline>}\<newline>EXPECTED:\<newline>([]interface {}) (len=2 cap=2) {\<newline> (int) 3,\<newline> (int) 4\<newline>}\<newline>MISSING ELEMENT\<newline>(int) 4'']
   \<and> length (fatals (snd (SameElements_sw (example_runtime direct_stack) capture
        (GSlice ''[]int'' 1 [GInt 1, GInt 2]) (GSlice ''[]interface {}'' 2 [GInt 3, GInt 4]) []))) = 2"
  by code_simp

end
